theory Spec2Isabelle
  imports Main "HOL-Library.Signed_Division"
begin

section \<open>Constants of filehdr.h\<close>

text \<open>
  Modelled from the spec: \<open>disk.h\<close> is not among the sources; the sector width is the
  128 bytes that the comments of \<open>filehdr.h\<close> compute with (\<open>128bytes * 30 = 3840bytes\<close>).
  \<open>sizeof(int)\<close> is 4, as the same comments assume (\<open>128 / 4 = 32\<close>).
\<close>

definition SectorSize :: int where
  "SectorSize = 128"

definition NUM_INT_IN_SECTOR :: int where
  "NUM_INT_IN_SECTOR = SectorSize div 4"

definition NUM_FILE_HEADER_POINTER :: int where
  "NUM_FILE_HEADER_POINTER = NUM_INT_IN_SECTOR - 2"

definition NUM_INDIRECT_POINTER :: int where
  "NUM_INDIRECT_POINTER = NUM_INT_IN_SECTOR - 1"

definition LEVEL_1_SECTOR_NUM :: int where
  "LEVEL_1_SECTOR_NUM = NUM_FILE_HEADER_POINTER"

definition LEVEL_2_SECTOR_NUM :: int where
  "LEVEL_2_SECTOR_NUM = NUM_FILE_HEADER_POINTER * NUM_INDIRECT_POINTER"

definition LEVEL_3_SECTOR_NUM :: int where
  "LEVEL_3_SECTOR_NUM = NUM_FILE_HEADER_POINTER * NUM_INDIRECT_POINTER * NUM_INDIRECT_POINTER"

definition LEVEL_4_SECTOR_NUM :: int where
  "LEVEL_4_SECTOR_NUM =
     NUM_FILE_HEADER_POINTER * NUM_INDIRECT_POINTER * NUM_INDIRECT_POINTER * NUM_INDIRECT_POINTER"

definition LEVEL_1_SIZE :: int where
  "LEVEL_1_SIZE = SectorSize * LEVEL_1_SECTOR_NUM"

definition LEVEL_2_SIZE :: int where
  "LEVEL_2_SIZE = SectorSize * LEVEL_2_SECTOR_NUM"

definition LEVEL_3_SIZE :: int where
  "LEVEL_3_SIZE = SectorSize * LEVEL_3_SECTOR_NUM"

definition LEVEL_4_SIZE :: int where
  "LEVEL_4_SIZE = SectorSize * LEVEL_4_SECTOR_NUM"

definition LEVEL_1 :: int where "LEVEL_1 = 1"
definition LEVEL_2 :: int where "LEVEL_2 = 2"
definition LEVEL_3 :: int where "LEVEL_3 = 3"
definition LEVEL_4 :: int where "LEVEL_4 = 4"

definition SECTOR_NUM_IN_LEVEL :: "int list" where
  "SECTOR_NUM_IN_LEVEL =
     [1, LEVEL_1_SECTOR_NUM, LEVEL_2_SECTOR_NUM, LEVEL_3_SECTOR_NUM, LEVEL_4_SECTOR_NUM]"

text \<open>
  The macros above are built from \<open>sizeof\<close>, so in C they have the unsigned type
  \<open>size_t\<close>, and an \<open>int\<close> compared with one of them is converted to \<open>size_t\<close> first:
  a negative \<open>int\<close> becomes a huge value. C \<open>int\<close> values are modelled as \<open>int\<close>;
  \<open>size_t_of_int\<close> is that conversion (NachOS is built as a 32-bit program).
\<close>

definition size_t_of_int :: "int \<Rightarrow> int" where
  "size_t_of_int x = x mod 2 ^ 32"

text \<open>
  Modelled from the spec: \<open>utility.h\<close> (the macros \<open>divRoundUp\<close>, \<open>divRoundDown\<close> and
  \<open>min\<close>) is not among the sources. The spec writes \<open>T = \<lceil>file_size / S\<rceil>\<close> and
  \<open>numPointer = \<lceil>T / sectors_per_top_pointer(level)\<rceil>\<close> for the two uses of \<open>divRoundUp\<close>,
  and \<open>offset / capacity\<close> for \<open>divRoundDown\<close> (C division, which truncates).
\<close>

definition divRoundUp :: "int \<Rightarrow> int \<Rightarrow> int" where
  "divRoundUp n s = - ((- n) div s)"

definition divRoundDown :: "int \<Rightarrow> int \<Rightarrow> int" where
  "divRoundDown n s = n sdiv s"

text \<open>
  What ends a call without a result: a failed \<open>ASSERT\<close> (NachOS aborts), an index past
  an array, a division by zero, a write past a buffer, and a recursion that the fuel given
  to it did not let return.
\<close>

datatype error = AssertionFailed | OutOfBounds | DivisionByZero | BufferOverflow | OutOfFuel

section \<open>The persistent bitmap\<close>

text \<open>
  Modelled from the spec: \<open>pbitmap.h\<close> and \<open>bitmap.cc\<close> are not among the sources. The
  spec: \<open>mark(i)\<close>, \<open>clear(i)\<close>, \<open>test(i)\<close> are set membership on \<open>[0, N)\<close>;
  \<open>find_and_set()\<close> returns the lowest-index free sector and marks it used, and fails when
  the bitmap is full (the callers test the result against \<open>-1\<close>); \<open>num_clear()\<close> counts the
  free sectors. A bitmap of \<open>N\<close> sectors is a list of \<open>N\<close> bits, \<open>True\<close> for used.
\<close>

type_synonym PersistentBitmap = "bool list"

definition Test :: "PersistentBitmap \<Rightarrow> int \<Rightarrow> bool" where
  "Test bm i = (0 \<le> i \<and> nat i < length bm \<and> bm ! nat i)"

definition Mark :: "PersistentBitmap \<Rightarrow> int \<Rightarrow> PersistentBitmap" where
  "Mark bm i = (if 0 \<le> i then bm[nat i := True] else bm)"

definition Clear :: "PersistentBitmap \<Rightarrow> int \<Rightarrow> PersistentBitmap" where
  "Clear bm i = (if 0 \<le> i then bm[nat i := False] else bm)"

definition NumClear :: "PersistentBitmap \<Rightarrow> int" where
  "NumClear bm = int (length (filter Not bm))"

fun first_clear :: "bool list \<Rightarrow> nat option" where
  "first_clear [] = None"
| "first_clear (b # bs) = (if b then map_option Suc (first_clear bs) else Some 0)"

definition FindAndSet :: "PersistentBitmap \<Rightarrow> int \<times> PersistentBitmap" where
  "FindAndSet bm =
     (case first_clear bm of
        None \<Rightarrow> (-1, bm)
      | Some i \<Rightarrow> (int i, bm[i := True]))"

section \<open>The disk\<close>

text \<open>
  The simulated disk maps a sector number to the \<open>SectorSize / sizeof(int)\<close> ints it
  holds. \<open>ReadSector\<close> fills the whole cache of the caller (which the caller has set
  to \<open>-1\<close> before), \<open>WriteSector\<close> stores the whole cache.
\<close>

type_synonym Disk = "int \<Rightarrow> int list"

definition ReadSector :: "Disk \<Rightarrow> int \<Rightarrow> int list" where
  "ReadSector disk sectorNumber =
     take (nat NUM_INT_IN_SECTOR) (disk sectorNumber @ replicate (nat NUM_INT_IN_SECTOR) (-1))"

definition WriteSector :: "Disk \<Rightarrow> int \<Rightarrow> int list \<Rightarrow> Disk" where
  "WriteSector disk sectorNumber cache = disk(sectorNumber := cache)"

section \<open>The pointer classes of filehdr.cc\<close>

record DirectPointer =
  dataSector :: int

record SingleIndirectPointer =
  s_numPointer :: int
  s_pointerSectors :: "int list"

record DoubleIndirectPointer =
  d_numPointer :: int
  d_pointerSectors :: "int list"
  d_table :: "SingleIndirectPointer list"

record TripleIndirectPointer =
  t_numPointer :: int
  t_pointerSectors :: "int list"
  t_table :: "DoubleIndirectPointer list"

datatype DataPointerInterface =
    Direct DirectPointer
  | Single SingleIndirectPointer
  | Double DoubleIndirectPointer
  | Triple TripleIndirectPointer

text \<open>
  \<open>GetNewPointerByLevel\<close> creates its objects with \<open>new T()\<close>: the classes have no
  constructor of their own, so every field starts as zero.
\<close>

definition new_DirectPointer :: DirectPointer where
  "new_DirectPointer = \<lparr>dataSector = 0\<rparr>"

definition new_SingleIndirectPointer :: SingleIndirectPointer where
  "new_SingleIndirectPointer =
     \<lparr>s_numPointer = 0, s_pointerSectors = replicate (nat NUM_INDIRECT_POINTER) 0\<rparr>"

definition new_DoubleIndirectPointer :: DoubleIndirectPointer where
  "new_DoubleIndirectPointer =
     \<lparr>d_numPointer = 0, d_pointerSectors = replicate (nat NUM_INDIRECT_POINTER) 0,
      d_table = replicate (nat NUM_INDIRECT_POINTER) new_SingleIndirectPointer\<rparr>"

definition new_TripleIndirectPointer :: TripleIndirectPointer where
  "new_TripleIndirectPointer =
     \<lparr>t_numPointer = 0, t_pointerSectors = replicate (nat NUM_INDIRECT_POINTER) 0,
      t_table = replicate (nat NUM_INDIRECT_POINTER) new_DoubleIndirectPointer\<rparr>"

definition GetNewPointerByLevel :: "int \<Rightarrow> DataPointerInterface option" where
  "GetNewPointerByLevel lv =
     (if lv = LEVEL_1 then Some (Direct new_DirectPointer)
      else if lv = LEVEL_2 then Some (Single new_SingleIndirectPointer)
      else if lv = LEVEL_3 then Some (Double new_DoubleIndirectPointer)
      else if lv = LEVEL_4 then Some (Triple new_TripleIndirectPointer)
      else None)"

subsection \<open>The loops shared by the classes\<close>

text \<open>
  \<open>for (i = 0; i < numPointer; i++) { pointerSectors[i] = freeMap->FindAndSet();
  ASSERT(pointerSectors[i] >= 0); }\<close>: the first argument counts the iterations left.
\<close>

fun reserve_loop ::
  "nat \<Rightarrow> nat \<Rightarrow> int list \<Rightarrow> PersistentBitmap \<Rightarrow> error + (int list \<times> PersistentBitmap)" where
  "reserve_loop 0 i ps freeMap = Inr (ps, freeMap)"
| "reserve_loop (Suc k) i ps freeMap =
     (if length ps \<le> i then Inl OutOfBounds
      else case FindAndSet freeMap of
        (s, freeMap') \<Rightarrow>
          if 0 \<le> s then reserve_loop k (Suc i) (ps[i := s]) freeMap'
          else Inl AssertionFailed)"

text \<open>
  \<open>for (i = 0; i < numPointer; i++) { ASSERT(remainSector > 0);
  allocateSectors = min(remainSector, cap); ASSERT(table[i].Allocate(freeMap, allocateSectors));
  remainSector -= allocateSectors; }\<close>, for the child class whose \<open>Allocate\<close> is \<open>alloc\<close>.
\<close>

fun allocate_loop ::
  "('c \<Rightarrow> PersistentBitmap \<Rightarrow> int \<Rightarrow> error + (bool \<times> 'c \<times> PersistentBitmap)) \<Rightarrow> int \<Rightarrow>
   nat \<Rightarrow> nat \<Rightarrow> 'c list \<Rightarrow> int \<Rightarrow> PersistentBitmap \<Rightarrow>
   error + ('c list \<times> int \<times> PersistentBitmap)" where
  "allocate_loop alloc cap 0 i tbl remainSector freeMap = Inr (tbl, remainSector, freeMap)"
| "allocate_loop alloc cap (Suc k) i tbl remainSector freeMap =
     (if length tbl \<le> i then Inl OutOfBounds
      else if \<not> 0 < remainSector then Inl AssertionFailed
      else case alloc (tbl ! i) freeMap (min remainSector cap) of
        Inl e \<Rightarrow> Inl e
      | Inr (ok, c, freeMap') \<Rightarrow>
          if ok then allocate_loop alloc cap k (Suc i) (tbl[i := c])
                       (remainSector - min remainSector cap) freeMap'
          else Inl AssertionFailed)"

text \<open>
  \<open>for (i = 0; i < numPointer; i++) { ASSERT(pointerSectors[i] >= 0);
  table[i].WriteBack(pointerSectors[i]); }\<close>
\<close>

fun writeback_loop ::
  "('c \<Rightarrow> int \<Rightarrow> Disk \<Rightarrow> error + Disk) \<Rightarrow> nat \<Rightarrow> nat \<Rightarrow> int list \<Rightarrow> 'c list \<Rightarrow> Disk \<Rightarrow>
   error + Disk" where
  "writeback_loop wb 0 i ps tbl disk = Inr disk"
| "writeback_loop wb (Suc k) i ps tbl disk =
     (if length ps \<le> i \<or> length tbl \<le> i then Inl OutOfBounds
      else if \<not> 0 \<le> ps ! i then Inl AssertionFailed
      else case wb (tbl ! i) (ps ! i) disk of
        Inl e \<Rightarrow> Inl e
      | Inr disk' \<Rightarrow> writeback_loop wb k (Suc i) ps tbl disk')"

text \<open>
  \<open>for (i = 0; i < numPointer; i++) { ASSERT(pointerSectors[i] >= 0);
  table[i].FetchFrom(pointerSectors[i]); }\<close>
\<close>

fun fetch_loop ::
  "('c \<Rightarrow> Disk \<Rightarrow> int \<Rightarrow> error + 'c) \<Rightarrow> nat \<Rightarrow> nat \<Rightarrow> int list \<Rightarrow> 'c list \<Rightarrow> Disk \<Rightarrow>
   error + 'c list" where
  "fetch_loop fetch 0 i ps tbl disk = Inr tbl"
| "fetch_loop fetch (Suc k) i ps tbl disk =
     (if length ps \<le> i \<or> length tbl \<le> i then Inl OutOfBounds
      else if \<not> 0 \<le> ps ! i then Inl AssertionFailed
      else case fetch (tbl ! i) disk (ps ! i) of
        Inl e \<Rightarrow> Inl e
      | Inr c \<Rightarrow> fetch_loop fetch k (Suc i) ps (tbl[i := c]) disk)"

text \<open>
  \<open>for (i = 0; i < numPointer; i++) table[i].Deallocate(freeMap);\<close>
\<close>

fun deallocate_loop ::
  "('c \<Rightarrow> PersistentBitmap \<Rightarrow> error + PersistentBitmap) \<Rightarrow> nat \<Rightarrow> nat \<Rightarrow> 'c list \<Rightarrow>
   PersistentBitmap \<Rightarrow> error + PersistentBitmap" where
  "deallocate_loop dealloc 0 i tbl freeMap = Inr freeMap"
| "deallocate_loop dealloc (Suc k) i tbl freeMap =
     (if length tbl \<le> i then Inl OutOfBounds
      else case dealloc (tbl ! i) freeMap of
        Inl e \<Rightarrow> Inl e
      | Inr freeMap' \<Rightarrow> deallocate_loop dealloc k (Suc i) tbl freeMap')"

text \<open>
  \<open>for (i = 0; i < numPointer; i++) { ASSERT(freeMap->Test(pointerSectors[i]));
  freeMap->Clear(pointerSectors[i]); }\<close>
\<close>

fun clear_loop :: "nat \<Rightarrow> nat \<Rightarrow> int list \<Rightarrow> PersistentBitmap \<Rightarrow> error + PersistentBitmap" where
  "clear_loop 0 i ps freeMap = Inr freeMap"
| "clear_loop (Suc k) i ps freeMap =
     (if length ps \<le> i then Inl OutOfBounds
      else if \<not> Test freeMap (ps ! i) then Inl AssertionFailed
      else clear_loop k (Suc i) ps (Clear freeMap (ps ! i)))"

text \<open>
  The table \<open>SIZE_IN_LEVEL\<close> that the \<open>ByteToSector\<close> functions index is declared in
  no file of the sources, so it is a parameter of them. \<open>size_in_level\<close> reads one cell and
  is the divisor of a C division, which must not be zero.
\<close>

definition size_in_level :: "int list \<Rightarrow> int \<Rightarrow> error + int" where
  "size_in_level SIZE_IN_LEVEL k =
     (if k < 0 \<or> int (length SIZE_IN_LEVEL) \<le> k then Inl OutOfBounds
      else if SIZE_IN_LEVEL ! nat k = 0 then Inl DivisionByZero
      else Inr (SIZE_IN_LEVEL ! nat k))"

subsection \<open>DirectPointer\<close>

definition DirectPointer_Allocate ::
  "DirectPointer \<Rightarrow> PersistentBitmap \<Rightarrow> int \<Rightarrow> error + (bool \<times> DirectPointer \<times> PersistentBitmap)" where
  "DirectPointer_Allocate p freeMap numSectors =
     (if numSectors \<noteq> 1 then Inl AssertionFailed
      else if NumClear freeMap < numSectors then Inr (False, p, freeMap)
      else case FindAndSet freeMap of
        (s, freeMap') \<Rightarrow>
          if 0 \<le> s then Inr (True, p\<lparr>dataSector := s\<rparr>, freeMap')
          else Inl AssertionFailed)"

definition DirectPointer_Deallocate ::
  "DirectPointer \<Rightarrow> PersistentBitmap \<Rightarrow> error + PersistentBitmap" where
  "DirectPointer_Deallocate p freeMap =
     (if \<not> Test freeMap (dataSector p) then Inl AssertionFailed
      else Inr (Clear freeMap (dataSector p)))"

definition DirectPointer_FetchFrom :: "DirectPointer \<Rightarrow> Disk \<Rightarrow> int \<Rightarrow> error + DirectPointer" where
  "DirectPointer_FetchFrom p disk sectorNumber =
     (let cache = ReadSector disk sectorNumber in Inr (p\<lparr>dataSector := cache ! 0\<rparr>))"

definition DirectPointer_WriteBack :: "DirectPointer \<Rightarrow> int \<Rightarrow> Disk \<Rightarrow> error + Disk" where
  "DirectPointer_WriteBack p sectorNumber disk =
     (let cache = (replicate (nat NUM_INT_IN_SECTOR) (-1))[0 := dataSector p]
      in Inr (WriteSector disk sectorNumber cache))"

definition DirectPointer_ByteToSector :: "DirectPointer \<Rightarrow> int \<Rightarrow> error + int" where
  "DirectPointer_ByteToSector p offset =
     (if \<not> offset \<le> SectorSize then Inl AssertionFailed else Inr (dataSector p))"

subsection \<open>SingleIndirectPointer\<close>

text \<open>
  In \<open>filehdr.cc\<close> the loops of this class over its \<open>DirectPointer\<close> table are commented
  out: the cells of \<open>pointerSectors\<close> are the data sectors themselves.
\<close>

definition SingleIndirectPointer_Allocate ::
  "SingleIndirectPointer \<Rightarrow> PersistentBitmap \<Rightarrow> int \<Rightarrow>
   error + (bool \<times> SingleIndirectPointer \<times> PersistentBitmap)" where
  "SingleIndirectPointer_Allocate p freeMap numSectors =
     (if \<not> size_t_of_int numSectors \<le> LEVEL_1_SECTOR_NUM then Inl AssertionFailed
      else let p = p\<lparr>s_numPointer := numSectors\<rparr> in
        if NumClear freeMap < s_numPointer p then Inr (False, p, freeMap)
        else case reserve_loop (nat (s_numPointer p)) 0 (s_pointerSectors p) freeMap of
          Inl e \<Rightarrow> Inl e
        | Inr (ps, freeMap') \<Rightarrow> Inr (True, p\<lparr>s_pointerSectors := ps\<rparr>, freeMap'))"

definition SingleIndirectPointer_Deallocate ::
  "SingleIndirectPointer \<Rightarrow> PersistentBitmap \<Rightarrow> error + PersistentBitmap" where
  "SingleIndirectPointer_Deallocate p freeMap =
     clear_loop (nat (s_numPointer p)) 0 (s_pointerSectors p) freeMap"

definition SingleIndirectPointer_FetchFrom ::
  "SingleIndirectPointer \<Rightarrow> Disk \<Rightarrow> int \<Rightarrow> error + SingleIndirectPointer" where
  "SingleIndirectPointer_FetchFrom p disk sectorNumber =
     (let cache = ReadSector disk sectorNumber in
      Inr (p\<lparr>s_numPointer := cache ! 0,
             s_pointerSectors := take (nat NUM_INDIRECT_POINTER) (drop 1 cache)\<rparr>))"

definition SingleIndirectPointer_WriteBack ::
  "SingleIndirectPointer \<Rightarrow> int \<Rightarrow> Disk \<Rightarrow> error + Disk" where
  "SingleIndirectPointer_WriteBack p sectorNumber disk =
     (let cache = s_numPointer p # take (nat NUM_INDIRECT_POINTER) (s_pointerSectors p)
      in Inr (WriteSector disk sectorNumber cache))"

definition SingleIndirectPointer_ByteToSector ::
  "int list \<Rightarrow> SingleIndirectPointer \<Rightarrow> int \<Rightarrow> error + int" where
  "SingleIndirectPointer_ByteToSector SIZE_IN_LEVEL p offset =
     (case size_in_level SIZE_IN_LEVEL 0 of
        Inl e \<Rightarrow> Inl e
      | Inr sz \<Rightarrow>
          let pointerIndex = divRoundDown offset sz in
          if \<not> size_t_of_int pointerIndex < NUM_INDIRECT_POINTER then Inl AssertionFailed
          else if length (s_pointerSectors p) \<le> nat pointerIndex then Inl OutOfBounds
          else if \<not> 0 \<le> s_pointerSectors p ! nat pointerIndex then Inl AssertionFailed
          else Inr (s_pointerSectors p ! nat pointerIndex))"

subsection \<open>DoubleIndirectPointer\<close>

definition DoubleIndirectPointer_Allocate ::
  "DoubleIndirectPointer \<Rightarrow> PersistentBitmap \<Rightarrow> int \<Rightarrow>
   error + (bool \<times> DoubleIndirectPointer \<times> PersistentBitmap)" where
  "DoubleIndirectPointer_Allocate p freeMap numSectors =
     (if \<not> size_t_of_int numSectors \<le> LEVEL_2_SECTOR_NUM then Inl AssertionFailed
      else let p = p\<lparr>d_numPointer := divRoundUp (size_t_of_int numSectors) LEVEL_1_SECTOR_NUM\<rparr> in
        if NumClear freeMap < d_numPointer p then Inr (False, p, freeMap)
        else case reserve_loop (nat (d_numPointer p)) 0 (d_pointerSectors p) freeMap of
          Inl e \<Rightarrow> Inl e
        | Inr (ps, freeMap1) \<Rightarrow>
            (case allocate_loop SingleIndirectPointer_Allocate (SECTOR_NUM_IN_LEVEL ! 1)
                    (nat (d_numPointer p)) 0 (d_table p) numSectors freeMap1 of
               Inl e \<Rightarrow> Inl e
             | Inr (tbl, remainSector, freeMap2) \<Rightarrow>
                 if remainSector \<noteq> 0 then Inl AssertionFailed
                 else Inr (True, p\<lparr>d_pointerSectors := ps, d_table := tbl\<rparr>, freeMap2)))"

definition DoubleIndirectPointer_Deallocate ::
  "DoubleIndirectPointer \<Rightarrow> PersistentBitmap \<Rightarrow> error + PersistentBitmap" where
  "DoubleIndirectPointer_Deallocate p freeMap =
     deallocate_loop SingleIndirectPointer_Deallocate (nat (d_numPointer p)) 0 (d_table p) freeMap"

definition DoubleIndirectPointer_FetchFrom ::
  "DoubleIndirectPointer \<Rightarrow> Disk \<Rightarrow> int \<Rightarrow> error + DoubleIndirectPointer" where
  "DoubleIndirectPointer_FetchFrom p disk sectorNumber =
     (let cache = ReadSector disk sectorNumber;
          p = p\<lparr>d_numPointer := cache ! 0,
                d_pointerSectors := take (nat NUM_INDIRECT_POINTER) (drop 1 cache)\<rparr>
      in case fetch_loop SingleIndirectPointer_FetchFrom (nat (d_numPointer p)) 0
                (d_pointerSectors p) (d_table p) disk of
           Inl e \<Rightarrow> Inl e
         | Inr tbl \<Rightarrow> Inr (p\<lparr>d_table := tbl\<rparr>))"

definition DoubleIndirectPointer_WriteBack ::
  "DoubleIndirectPointer \<Rightarrow> int \<Rightarrow> Disk \<Rightarrow> error + Disk" where
  "DoubleIndirectPointer_WriteBack p sectorNumber disk =
     (let cache = d_numPointer p # take (nat NUM_INDIRECT_POINTER) (d_pointerSectors p)
      in case writeback_loop SingleIndirectPointer_WriteBack (nat (d_numPointer p)) 0
                (d_pointerSectors p) (d_table p) disk of
           Inl e \<Rightarrow> Inl e
         | Inr disk' \<Rightarrow> Inr (WriteSector disk' sectorNumber cache))"

definition DoubleIndirectPointer_ByteToSector ::
  "int list \<Rightarrow> DoubleIndirectPointer \<Rightarrow> int \<Rightarrow> error + int" where
  "DoubleIndirectPointer_ByteToSector SIZE_IN_LEVEL p offset =
     (case size_in_level SIZE_IN_LEVEL 1 of
        Inl e \<Rightarrow> Inl e
      | Inr sz \<Rightarrow>
          let pointerIndex = divRoundDown offset sz;
              newOffset = offset smod sz in
          if \<not> size_t_of_int pointerIndex < NUM_INDIRECT_POINTER then Inl AssertionFailed
          else if length (d_pointerSectors p) \<le> nat pointerIndex
                  \<or> length (d_table p) \<le> nat pointerIndex then Inl OutOfBounds
          else if \<not> 0 \<le> d_pointerSectors p ! nat pointerIndex then Inl AssertionFailed
          else SingleIndirectPointer_ByteToSector SIZE_IN_LEVEL
                 (d_table p ! nat pointerIndex) newOffset)"

subsection \<open>TripleIndirectPointer\<close>

definition TripleIndirectPointer_Allocate ::
  "TripleIndirectPointer \<Rightarrow> PersistentBitmap \<Rightarrow> int \<Rightarrow>
   error + (bool \<times> TripleIndirectPointer \<times> PersistentBitmap)" where
  "TripleIndirectPointer_Allocate p freeMap numSectors =
     (if \<not> size_t_of_int numSectors \<le> LEVEL_3_SECTOR_NUM then Inl AssertionFailed
      else let p = p\<lparr>t_numPointer := divRoundUp (size_t_of_int numSectors) LEVEL_2_SECTOR_NUM\<rparr> in
        if NumClear freeMap < t_numPointer p then Inr (False, p, freeMap)
        else case reserve_loop (nat (t_numPointer p)) 0 (t_pointerSectors p) freeMap of
          Inl e \<Rightarrow> Inl e
        | Inr (ps, freeMap1) \<Rightarrow>
            (case allocate_loop DoubleIndirectPointer_Allocate (SECTOR_NUM_IN_LEVEL ! 2)
                    (nat (t_numPointer p)) 0 (t_table p) numSectors freeMap1 of
               Inl e \<Rightarrow> Inl e
             | Inr (tbl, remainSector, freeMap2) \<Rightarrow>
                 if remainSector \<noteq> 0 then Inl AssertionFailed
                 else Inr (True, p\<lparr>t_pointerSectors := ps, t_table := tbl\<rparr>, freeMap2)))"

definition TripleIndirectPointer_Deallocate ::
  "TripleIndirectPointer \<Rightarrow> PersistentBitmap \<Rightarrow> error + PersistentBitmap" where
  "TripleIndirectPointer_Deallocate p freeMap =
     deallocate_loop DoubleIndirectPointer_Deallocate (nat (t_numPointer p)) 0 (t_table p) freeMap"

definition TripleIndirectPointer_FetchFrom ::
  "TripleIndirectPointer \<Rightarrow> Disk \<Rightarrow> int \<Rightarrow> error + TripleIndirectPointer" where
  "TripleIndirectPointer_FetchFrom p disk sectorNumber =
     (let cache = ReadSector disk sectorNumber;
          p = p\<lparr>t_numPointer := cache ! 0,
                t_pointerSectors := take (nat NUM_INDIRECT_POINTER) (drop 1 cache)\<rparr>
      in case fetch_loop DoubleIndirectPointer_FetchFrom (nat (t_numPointer p)) 0
                (t_pointerSectors p) (t_table p) disk of
           Inl e \<Rightarrow> Inl e
         | Inr tbl \<Rightarrow> Inr (p\<lparr>t_table := tbl\<rparr>))"

definition TripleIndirectPointer_WriteBack ::
  "TripleIndirectPointer \<Rightarrow> int \<Rightarrow> Disk \<Rightarrow> error + Disk" where
  "TripleIndirectPointer_WriteBack p sectorNumber disk =
     (let cache = t_numPointer p # take (nat NUM_INDIRECT_POINTER) (t_pointerSectors p)
      in case writeback_loop DoubleIndirectPointer_WriteBack (nat (t_numPointer p)) 0
                (t_pointerSectors p) (t_table p) disk of
           Inl e \<Rightarrow> Inl e
         | Inr disk' \<Rightarrow> Inr (WriteSector disk' sectorNumber cache))"

definition TripleIndirectPointer_ByteToSector ::
  "int list \<Rightarrow> TripleIndirectPointer \<Rightarrow> int \<Rightarrow> error + int" where
  "TripleIndirectPointer_ByteToSector SIZE_IN_LEVEL p offset =
     (case size_in_level SIZE_IN_LEVEL 2 of
        Inl e \<Rightarrow> Inl e
      | Inr sz \<Rightarrow>
          let pointerIndex = divRoundDown offset sz;
              newOffset = offset smod sz in
          if \<not> size_t_of_int pointerIndex < NUM_INDIRECT_POINTER then Inl AssertionFailed
          else if length (t_pointerSectors p) \<le> nat pointerIndex
                  \<or> length (t_table p) \<le> nat pointerIndex then Inl OutOfBounds
          else if \<not> 0 \<le> t_pointerSectors p ! nat pointerIndex then Inl AssertionFailed
          else DoubleIndirectPointer_ByteToSector SIZE_IN_LEVEL
                 (t_table p ! nat pointerIndex) newOffset)"

subsection \<open>The virtual calls through DataPointerInterface\<close>

fun Allocate ::
  "DataPointerInterface \<Rightarrow> PersistentBitmap \<Rightarrow> int \<Rightarrow>
   error + (bool \<times> DataPointerInterface \<times> PersistentBitmap)" where
  "Allocate (Direct p) freeMap n =
     (case DirectPointer_Allocate p freeMap n of
        Inl e \<Rightarrow> Inl e | Inr (ok, p', freeMap') \<Rightarrow> Inr (ok, Direct p', freeMap'))"
| "Allocate (Single p) freeMap n =
     (case SingleIndirectPointer_Allocate p freeMap n of
        Inl e \<Rightarrow> Inl e | Inr (ok, p', freeMap') \<Rightarrow> Inr (ok, Single p', freeMap'))"
| "Allocate (Double p) freeMap n =
     (case DoubleIndirectPointer_Allocate p freeMap n of
        Inl e \<Rightarrow> Inl e | Inr (ok, p', freeMap') \<Rightarrow> Inr (ok, Double p', freeMap'))"
| "Allocate (Triple p) freeMap n =
     (case TripleIndirectPointer_Allocate p freeMap n of
        Inl e \<Rightarrow> Inl e | Inr (ok, p', freeMap') \<Rightarrow> Inr (ok, Triple p', freeMap'))"

fun Deallocate :: "DataPointerInterface \<Rightarrow> PersistentBitmap \<Rightarrow> error + PersistentBitmap" where
  "Deallocate (Direct p) freeMap = DirectPointer_Deallocate p freeMap"
| "Deallocate (Single p) freeMap = SingleIndirectPointer_Deallocate p freeMap"
| "Deallocate (Double p) freeMap = DoubleIndirectPointer_Deallocate p freeMap"
| "Deallocate (Triple p) freeMap = TripleIndirectPointer_Deallocate p freeMap"

fun FetchFrom :: "DataPointerInterface \<Rightarrow> Disk \<Rightarrow> int \<Rightarrow> error + DataPointerInterface" where
  "FetchFrom (Direct p) disk s = map_sum id Direct (DirectPointer_FetchFrom p disk s)"
| "FetchFrom (Single p) disk s = map_sum id Single (SingleIndirectPointer_FetchFrom p disk s)"
| "FetchFrom (Double p) disk s = map_sum id Double (DoubleIndirectPointer_FetchFrom p disk s)"
| "FetchFrom (Triple p) disk s = map_sum id Triple (TripleIndirectPointer_FetchFrom p disk s)"

fun WriteBack :: "DataPointerInterface \<Rightarrow> int \<Rightarrow> Disk \<Rightarrow> error + Disk" where
  "WriteBack (Direct p) s disk = DirectPointer_WriteBack p s disk"
| "WriteBack (Single p) s disk = SingleIndirectPointer_WriteBack p s disk"
| "WriteBack (Double p) s disk = DoubleIndirectPointer_WriteBack p s disk"
| "WriteBack (Triple p) s disk = TripleIndirectPointer_WriteBack p s disk"

fun ByteToSector :: "int list \<Rightarrow> DataPointerInterface \<Rightarrow> int \<Rightarrow> error + int" where
  "ByteToSector SIZE_IN_LEVEL (Direct p) offset = DirectPointer_ByteToSector p offset"
| "ByteToSector SIZE_IN_LEVEL (Single p) offset =
     SingleIndirectPointer_ByteToSector SIZE_IN_LEVEL p offset"
| "ByteToSector SIZE_IN_LEVEL (Double p) offset =
     DoubleIndirectPointer_ByteToSector SIZE_IN_LEVEL p offset"
| "ByteToSector SIZE_IN_LEVEL (Triple p) offset =
     TripleIndirectPointer_ByteToSector SIZE_IN_LEVEL p offset"

section \<open>FileHeader\<close>

record FileHeader =
  numBytes :: int
  numPointer :: int
  pointerSectors :: "int list"
  level :: int
  table :: "DataPointerInterface option list"

text \<open>
  \<open>new FileHeader\<close>: the class has no constructor, so the scalar fields and
  \<open>pointerSectors\<close> hold whatever the memory held (\<open>junk\<close>). Every function of the class
  tests \<open>table[i] != nullptr\<close> before it has stored into \<open>table\<close>, so the code relies on
  the table of a new header being all null; the model starts it so.
\<close>

definition new_FileHeader :: "(nat \<Rightarrow> int) \<Rightarrow> FileHeader" where
  "new_FileHeader junk =
     \<lparr>numBytes = junk 0, numPointer = junk 1,
      pointerSectors = map (\<lambda>i. junk (2 + i)) [0..<nat NUM_FILE_HEADER_POINTER],
      level = junk 32,
      table = replicate (nat NUM_FILE_HEADER_POINTER) None\<rparr>"

text \<open>
  The body of the second loop of \<open>FileHeader::Allocate\<close>:
  \<open>table[i] = GetNewPointerByLevel(level); ASSERT(table[i] != nullptr);
  table[i]->Allocate(freeMap, allocateSectors)\<close>.
\<close>

definition table_Allocate ::
  "int \<Rightarrow> DataPointerInterface option \<Rightarrow> PersistentBitmap \<Rightarrow> int \<Rightarrow>
   error + (bool \<times> DataPointerInterface option \<times> PersistentBitmap)" where
  "table_Allocate lv old freeMap n =
     (case GetNewPointerByLevel lv of
        None \<Rightarrow> Inl AssertionFailed
      | Some p \<Rightarrow>
          (case Allocate p freeMap n of
             Inl e \<Rightarrow> Inl e
           | Inr (ok, p', freeMap') \<Rightarrow> Inr (ok, Some p', freeMap')))"

text \<open>\<open>FileHeader::Allocate\<close> from the line that computes \<open>numPointer\<close> on.\<close>

definition FileHeader_Allocate_pointers ::
  "FileHeader \<Rightarrow> PersistentBitmap \<Rightarrow> int \<Rightarrow> error + (bool \<times> FileHeader \<times> PersistentBitmap)" where
  "FileHeader_Allocate_pointers hdr freeMap numSectors =
     (let hdr = hdr\<lparr>numPointer :=
                   divRoundUp numSectors (SECTOR_NUM_IN_LEVEL ! nat (level hdr - 1))\<rparr> in
      if \<not> size_t_of_int (numPointer hdr) \<le> NUM_FILE_HEADER_POINTER then Inl AssertionFailed
      else if NumClear freeMap < numPointer hdr then Inr (False, hdr, freeMap)
      else case reserve_loop (nat (numPointer hdr)) 0 (pointerSectors hdr) freeMap of
        Inl e \<Rightarrow> Inl e
      | Inr (ps, freeMap1) \<Rightarrow>
          (case allocate_loop (table_Allocate (level hdr))
                  (SECTOR_NUM_IN_LEVEL ! nat (level hdr - 1))
                  (nat (numPointer hdr)) 0 (table hdr) numSectors freeMap1 of
             Inl e \<Rightarrow> Inl e
           | Inr (tbl, remainSector, freeMap2) \<Rightarrow>
               if remainSector \<noteq> 0 then Inl AssertionFailed
               else Inr (True, hdr\<lparr>pointerSectors := ps, table := tbl\<rparr>, freeMap2)))"

definition FileHeader_Allocate ::
  "FileHeader \<Rightarrow> PersistentBitmap \<Rightarrow> int \<Rightarrow> error + (bool \<times> FileHeader \<times> PersistentBitmap)" where
  "FileHeader_Allocate hdr freeMap fileSize =
     (let hdr = hdr\<lparr>numBytes := fileSize\<rparr>;
          numSectors = divRoundUp fileSize SectorSize in
      if size_t_of_int fileSize \<le> LEVEL_1_SIZE then
        FileHeader_Allocate_pointers (hdr\<lparr>level := LEVEL_1\<rparr>) freeMap numSectors
      else if size_t_of_int fileSize \<le> LEVEL_2_SIZE then
        FileHeader_Allocate_pointers (hdr\<lparr>level := LEVEL_2\<rparr>) freeMap numSectors
      else if size_t_of_int fileSize \<le> LEVEL_3_SIZE then
        FileHeader_Allocate_pointers (hdr\<lparr>level := LEVEL_3\<rparr>) freeMap numSectors
      else if size_t_of_int fileSize \<le> LEVEL_4_SIZE then
        FileHeader_Allocate_pointers (hdr\<lparr>level := LEVEL_4\<rparr>) freeMap numSectors
      else Inr (False, hdr, freeMap))"

text \<open>
  \<open>for (i = 0; i < NUM_FILE_HEADER_POINTER; i++) if (table[i] != nullptr) {
  table[i]->Deallocate(freeMap); delete table[i]; table[i] = nullptr;
  ASSERT(freeMap->Test(pointerSectors[i])); freeMap->Clear(pointerSectors[i]); }\<close>
\<close>

fun header_deallocate_loop ::
  "nat \<Rightarrow> nat \<Rightarrow> int list \<Rightarrow> DataPointerInterface option list \<Rightarrow> PersistentBitmap \<Rightarrow>
   error + (DataPointerInterface option list \<times> PersistentBitmap)" where
  "header_deallocate_loop 0 i ps tbl freeMap = Inr (tbl, freeMap)"
| "header_deallocate_loop (Suc k) i ps tbl freeMap =
     (if length ps \<le> i \<or> length tbl \<le> i then Inl OutOfBounds
      else case tbl ! i of
        None \<Rightarrow> header_deallocate_loop k (Suc i) ps tbl freeMap
      | Some p \<Rightarrow>
          (case Deallocate p freeMap of
             Inl e \<Rightarrow> Inl e
           | Inr freeMap1 \<Rightarrow>
               if \<not> Test freeMap1 (ps ! i) then Inl AssertionFailed
               else header_deallocate_loop k (Suc i) ps (tbl[i := None])
                      (Clear freeMap1 (ps ! i))))"

definition FileHeader_Deallocate ::
  "FileHeader \<Rightarrow> PersistentBitmap \<Rightarrow> error + (FileHeader \<times> PersistentBitmap)" where
  "FileHeader_Deallocate hdr freeMap =
     (case header_deallocate_loop (nat NUM_FILE_HEADER_POINTER) 0 (pointerSectors hdr)
             (table hdr) freeMap of
        Inl e \<Rightarrow> Inl e
      | Inr (tbl, freeMap') \<Rightarrow> Inr (hdr\<lparr>table := tbl\<rparr>, freeMap'))"

text \<open>
  The body of the loop of \<open>FileHeader::FetchFrom\<close>:
  \<open>table[i] = GetNewPointerByLevel(level); ASSERT(table[i] != nullptr);
  table[i]->FetchFrom(pointerSectors[i])\<close>.
\<close>

definition table_FetchFrom ::
  "int \<Rightarrow> DataPointerInterface option \<Rightarrow> Disk \<Rightarrow> int \<Rightarrow> error + DataPointerInterface option" where
  "table_FetchFrom lv old disk s =
     (case GetNewPointerByLevel lv of
        None \<Rightarrow> Inl AssertionFailed
      | Some p \<Rightarrow> map_sum id Some (FetchFrom p disk s))"

text \<open>\<open>FileHeader::FetchFrom\<close> from its last loop on.\<close>

definition FileHeader_FetchFrom_pointers :: "FileHeader \<Rightarrow> Disk \<Rightarrow> error + FileHeader" where
  "FileHeader_FetchFrom_pointers hdr disk =
     (case fetch_loop (table_FetchFrom (level hdr)) (nat (numPointer hdr)) 0
             (pointerSectors hdr) (table hdr) disk of
        Inl e \<Rightarrow> Inl e
      | Inr tbl \<Rightarrow> Inr (hdr\<lparr>table := tbl\<rparr>))"

definition FileHeader_FetchFrom :: "FileHeader \<Rightarrow> Disk \<Rightarrow> int \<Rightarrow> error + FileHeader" where
  "FileHeader_FetchFrom hdr disk sector =
     (let cache = ReadSector disk sector;
          hdr = hdr\<lparr>numBytes := cache ! 0, numPointer := cache ! 1,
                    pointerSectors := take (nat NUM_FILE_HEADER_POINTER) (drop 2 cache)\<rparr> in
      if size_t_of_int (numBytes hdr) \<le> LEVEL_1_SIZE then
        FileHeader_FetchFrom_pointers (hdr\<lparr>level := LEVEL_1\<rparr>) disk
      else if size_t_of_int (numBytes hdr) \<le> LEVEL_2_SIZE then
        FileHeader_FetchFrom_pointers (hdr\<lparr>level := LEVEL_2\<rparr>) disk
      else if size_t_of_int (numBytes hdr) \<le> LEVEL_3_SIZE then
        FileHeader_FetchFrom_pointers (hdr\<lparr>level := LEVEL_3\<rparr>) disk
      else if size_t_of_int (numBytes hdr) \<le> LEVEL_4_SIZE then
        FileHeader_FetchFrom_pointers (hdr\<lparr>level := LEVEL_4\<rparr>) disk
      else Inl AssertionFailed)"

text \<open>
  The body of the loop of \<open>FileHeader::WriteBack\<close>:
  \<open>ASSERT(table[i] != nullptr); table[i]->WriteBack(pointerSectors[i])\<close>.
\<close>

definition table_WriteBack :: "DataPointerInterface option \<Rightarrow> int \<Rightarrow> Disk \<Rightarrow> error + Disk" where
  "table_WriteBack c s disk =
     (case c of None \<Rightarrow> Inl AssertionFailed | Some p \<Rightarrow> WriteBack p s disk)"

definition FileHeader_WriteBack :: "FileHeader \<Rightarrow> int \<Rightarrow> Disk \<Rightarrow> error + Disk" where
  "FileHeader_WriteBack hdr sector disk =
     (let cache = numBytes hdr # numPointer hdr #
                  take (nat NUM_FILE_HEADER_POINTER) (pointerSectors hdr)
      in case writeback_loop table_WriteBack (nat (numPointer hdr)) 0
                (pointerSectors hdr) (table hdr) disk of
           Inl e \<Rightarrow> Inl e
         | Inr disk' \<Rightarrow> Inr (WriteSector disk' sector cache))"

definition FileHeader_ByteToSector :: "int list \<Rightarrow> FileHeader \<Rightarrow> int \<Rightarrow> error + int" where
  "FileHeader_ByteToSector SIZE_IN_LEVEL hdr offset =
     (case size_in_level SIZE_IN_LEVEL (level hdr - 1) of
        Inl e \<Rightarrow> Inl e
      | Inr sz \<Rightarrow>
          let pointerIndex = divRoundDown offset sz;
              newOffset = offset smod sz in
          if \<not> size_t_of_int pointerIndex < NUM_FILE_HEADER_POINTER then Inl AssertionFailed
          else if length (table hdr) \<le> nat pointerIndex then Inl OutOfBounds
          else case table hdr ! nat pointerIndex of
            None \<Rightarrow> Inl AssertionFailed
          | Some p \<Rightarrow> ByteToSector SIZE_IN_LEVEL p newOffset)"

definition FileLength :: "FileHeader \<Rightarrow> int" where
  "FileLength hdr = numBytes hdr"

section \<open>Pointer blocks and well-formed headers\<close>

text \<open>
  The notions in which the round trip of a header through the disk is stated and proved;
  none of them is code of the repository. \<open>free bm\<close> is the set of sectors that the bitmap
  \<open>bm\<close> has clear.
\<close>

definition free :: "PersistentBitmap \<Rightarrow> int set" where
  "free bm = {i. 0 \<le> i \<and> nat i < length bm \<and> \<not> bm ! nat i}"

text \<open>
  \<open>blocks_of B ps tbl js\<close> lists, for the children \<open>js\<close> of a node, the sector
  \<open>ps ! j\<close> into which \<open>WriteBack\<close> writes child \<open>j\<close> and the sectors \<open>B (tbl ! j)\<close>
  into which the child writes its own children. The blocks of a node are the sectors
  that its \<open>WriteBack\<close> writes besides the sector it is given: a direct and a
  single-indirect pointer have none (the sectors they point at are data sectors, which
  \<open>WriteBack\<close> does not write).
\<close>

definition blocks_of :: "('c \<Rightarrow> int list) \<Rightarrow> int list \<Rightarrow> 'c list \<Rightarrow> nat list \<Rightarrow> int list" where
  "blocks_of B ps tbl js = concat (map (\<lambda>j. ps ! j # B (tbl ! j)) js)"

definition double_blocks :: "DoubleIndirectPointer \<Rightarrow> int list" where
  "double_blocks d =
     blocks_of (\<lambda>c. []) (d_pointerSectors d) (d_table d) [0..<nat (d_numPointer d)]"

definition triple_blocks :: "TripleIndirectPointer \<Rightarrow> int list" where
  "triple_blocks t =
     blocks_of double_blocks (t_pointerSectors t) (t_table t) [0..<nat (t_numPointer t)]"

fun dpi_blocks :: "DataPointerInterface \<Rightarrow> int list" where
  "dpi_blocks (Direct p) = []"
| "dpi_blocks (Single p) = []"
| "dpi_blocks (Double p) = double_blocks p"
| "dpi_blocks (Triple p) = triple_blocks p"

definition opt_blocks :: "DataPointerInterface option \<Rightarrow> int list" where
  "opt_blocks c = (case c of None \<Rightarrow> [] | Some p \<Rightarrow> dpi_blocks p)"

definition header_blocks :: "FileHeader \<Rightarrow> int list" where
  "header_blocks h = blocks_of opt_blocks (pointerSectors h) (table h) [0..<nat (numPointer h)]"

text \<open>
  \<open>roundtrips wb fetch fresh c bs\<close>: written by \<open>wb\<close> into any sector \<open>s\<close> that is none
  of its blocks \<open>bs\<close>, the node \<open>c\<close> changes only \<open>s\<close> and \<open>bs\<close>, and \<open>fetch\<close> into the
  new object \<open>fresh\<close> reads \<open>c\<close> back from every disk that holds the same in \<open>s\<close> and
  \<open>bs\<close>.
\<close>

definition roundtrips ::
  "('c \<Rightarrow> int \<Rightarrow> Disk \<Rightarrow> error + Disk) \<Rightarrow> ('c \<Rightarrow> Disk \<Rightarrow> int \<Rightarrow> error + 'c) \<Rightarrow> 'c \<Rightarrow> 'c \<Rightarrow> int list \<Rightarrow> bool" where
  "roundtrips wb fetch fresh c bs =
     (\<forall>s disk. s \<notin> set bs \<longrightarrow>
        (\<exists>disk'. wb c s disk = Inr disk'
           \<and> (\<forall>x. x \<noteq> s \<and> x \<notin> set bs \<longrightarrow> disk' x = disk x)
           \<and> (\<forall>disk''. (\<forall>x. x = s \<or> x \<in> set bs \<longrightarrow> disk'' x = disk' x) \<longrightarrow>
                  fetch fresh disk'' s = Inr c)))"

text \<open>
  What \<open>Allocate\<close> establishes of a node: the arrays have their declared lengths, the
  pointer sectors in use are not negative, the blocks are pairwise different, the children
  in use are well formed and the others are as \<open>new T()\<close> left them. \<open>level_matches nb lv\<close>
  is the level selection that \<open>FileHeader::Allocate\<close> and \<open>FileHeader::FetchFrom\<close> both
  write out.
\<close>

definition wf_single :: "SingleIndirectPointer \<Rightarrow> bool" where
  "wf_single p = (length (s_pointerSectors p) = 31)"

definition wf_double :: "DoubleIndirectPointer \<Rightarrow> bool" where
  "wf_double d =
     (nat (d_numPointer d) \<le> 31
      \<and> length (d_pointerSectors d) = 31 \<and> length (d_table d) = 31
      \<and> (\<forall>j. j < nat (d_numPointer d) \<longrightarrow> 0 \<le> d_pointerSectors d ! j \<and> wf_single (d_table d ! j))
      \<and> distinct (double_blocks d)
      \<and> (\<forall>j. nat (d_numPointer d) \<le> j \<and> j < 31 \<longrightarrow> d_table d ! j = new_SingleIndirectPointer))"

definition wf_triple :: "TripleIndirectPointer \<Rightarrow> bool" where
  "wf_triple t =
     (nat (t_numPointer t) \<le> 31
      \<and> length (t_pointerSectors t) = 31 \<and> length (t_table t) = 31
      \<and> (\<forall>j. j < nat (t_numPointer t) \<longrightarrow> 0 \<le> t_pointerSectors t ! j \<and> wf_double (t_table t ! j))
      \<and> distinct (triple_blocks t)
      \<and> (\<forall>j. nat (t_numPointer t) \<le> j \<and> j < 31 \<longrightarrow> t_table t ! j = new_DoubleIndirectPointer))"

fun wf_dpi :: "DataPointerInterface \<Rightarrow> bool" where
  "wf_dpi (Direct p) = True"
| "wf_dpi (Single p) = wf_single p"
| "wf_dpi (Double p) = wf_double p"
| "wf_dpi (Triple p) = wf_triple p"

fun level_of :: "DataPointerInterface \<Rightarrow> int" where
  "level_of (Direct p) = LEVEL_1"
| "level_of (Single p) = LEVEL_2"
| "level_of (Double p) = LEVEL_3"
| "level_of (Triple p) = LEVEL_4"

definition level_matches :: "int \<Rightarrow> int \<Rightarrow> bool" where
  "level_matches nb lv =
     (if size_t_of_int nb \<le> LEVEL_1_SIZE then lv = LEVEL_1
      else if size_t_of_int nb \<le> LEVEL_2_SIZE then lv = LEVEL_2
      else if size_t_of_int nb \<le> LEVEL_3_SIZE then lv = LEVEL_3
      else if size_t_of_int nb \<le> LEVEL_4_SIZE then lv = LEVEL_4
      else False)"

definition wf_header :: "FileHeader \<Rightarrow> bool" where
  "wf_header h =
     (nat (numPointer h) \<le> 30
      \<and> length (pointerSectors h) = 30 \<and> length (table h) = 30
      \<and> (\<forall>j. j < nat (numPointer h) \<longrightarrow>
             0 \<le> pointerSectors h ! j
             \<and> (\<exists>p. table h ! j = Some p \<and> wf_dpi p \<and> level_of p = level h))
      \<and> distinct (header_blocks h)
      \<and> (\<forall>j. nat (numPointer h) \<le> j \<and> j < 30 \<longrightarrow> table h ! j = None)
      \<and> level_matches (numBytes h) (level h))"

text \<open>
  The table \<open>SIZE_IN_LEVEL\<close> that matches \<open>SECTOR_NUM_IN_LEVEL\<close>, for the examples: the
  bytes of the sectors that one pointer of each level is given.
\<close>

definition matching_SIZE_IN_LEVEL :: "int list" where
  "matching_SIZE_IN_LEVEL = map (\<lambda>n. SectorSize * n) SECTOR_NUM_IN_LEVEL"

section \<open>Directory\<close>

definition FILE_TYPE :: int where "FILE_TYPE = 1"
definition DIR_TYPE :: int where "DIR_TYPE = 2"
definition FileNameMaxLen :: nat where "FileNameMaxLen = 9"
definition NumDirEntries :: nat where "NumDirEntries = 64"

text \<open>
  \<open>sizeof(DirectoryEntry)\<close>: a \<open>bool\<close>, two \<open>int\<close>s and ten \<open>char\<close>s, 24 bytes with the
  alignment of \<open>int\<close>.
\<close>

definition DIR_SIZE :: int where
  "DIR_SIZE = int NumDirEntries * 24"

record DirectoryEntry =
  inUse :: bool
  fileType :: int
  sector :: int
  name :: "char list"

text \<open>
  A \<open>Directory\<close> is its \<open>table\<close>; \<open>tableSize\<close> is the length of the list. The constructor
  creates the entries with \<open>new DirectoryEntry[size]\<close> and stores only \<open>inUse = FALSE\<close> in
  each: the other fields, the ten bytes of \<open>name\<close> among them, hold what the memory held
  (\<open>junk\<close>).
\<close>

type_synonym Directory = "DirectoryEntry list"

definition new_Directory :: "(nat \<Rightarrow> DirectoryEntry) \<Rightarrow> nat \<Rightarrow> Directory" where
  "new_Directory junk n = map (\<lambda>i. (junk i)\<lparr>inUse := False\<rparr>) [0..<n]"

text \<open>
  The functions of \<open>string.h\<close> that the class calls. A \<open>char *\<close> argument is the list of its
  bytes; \<open>cstr\<close> is the string it holds, the bytes before the first NUL.
  \<open>strncmp_eq a b n\<close> is \<open>strncmp(a, b, n) == 0\<close>; \<open>strncpy dst src n\<close> is \<open>dst\<close> after
  \<open>strncpy(dst, src, n)\<close>: \<open>n\<close> bytes are written, those of \<open>src\<close> and then NULs, and no NUL
  is written when \<open>src\<close> has \<open>n\<close> bytes or more.
\<close>

definition NUL :: char where
  "NUL = CHR 0x00"

definition cstr :: "char list \<Rightarrow> char list" where
  "cstr s = takeWhile (\<lambda>c. c \<noteq> NUL) s"

definition strncmp_eq :: "char list \<Rightarrow> char list \<Rightarrow> nat \<Rightarrow> bool" where
  "strncmp_eq a b n = (take n (cstr a) = take n (cstr b))"

definition strncpy :: "char list \<Rightarrow> char list \<Rightarrow> nat \<Rightarrow> char list" where
  "strncpy dst src n =
     (let s = take n (cstr src) in s @ replicate (n - length s) NUL @ drop n dst)"

fun Directory_FindIndex_loop :: "DirectoryEntry list \<Rightarrow> nat \<Rightarrow> char list \<Rightarrow> int" where
  "Directory_FindIndex_loop [] i nm = - 1"
| "Directory_FindIndex_loop (e # es) i nm =
     (if inUse e \<and> strncmp_eq (name e) nm FileNameMaxLen then int i
      else Directory_FindIndex_loop es (Suc i) nm)"

definition Directory_FindIndex :: "Directory \<Rightarrow> char list \<Rightarrow> int" where
  "Directory_FindIndex tbl nm = Directory_FindIndex_loop tbl 0 nm"

definition Directory_Find :: "Directory \<Rightarrow> char list \<Rightarrow> int" where
  "Directory_Find tbl nm =
     (let i = Directory_FindIndex tbl nm in if i \<noteq> - 1 then sector (tbl ! nat i) else - 1)"

definition Directory_IsDirectory :: "Directory \<Rightarrow> char list \<Rightarrow> bool" where
  "Directory_IsDirectory tbl nm =
     (let index = Directory_FindIndex tbl nm in
      if index \<noteq> - 1 then fileType (tbl ! nat index) = DIR_TYPE else False)"

fun Directory_Add_loop ::
  "DirectoryEntry list \<Rightarrow> char list \<Rightarrow> int \<Rightarrow> int \<Rightarrow> bool \<times> DirectoryEntry list" where
  "Directory_Add_loop [] nm newSector ty = (False, [])"
| "Directory_Add_loop (e # es) nm newSector ty =
     (if \<not> inUse e then
        (True, e\<lparr>inUse := True, name := strncpy (name e) nm FileNameMaxLen,
                 sector := newSector, fileType := ty\<rparr> # es)
      else case Directory_Add_loop es nm newSector ty of (ok, es') \<Rightarrow> (ok, e # es'))"

definition Directory_Add :: "Directory \<Rightarrow> char list \<Rightarrow> int \<Rightarrow> int \<Rightarrow> bool \<times> Directory" where
  "Directory_Add tbl nm newSector ty =
     (if Directory_FindIndex tbl nm \<noteq> - 1 then (False, tbl) else Directory_Add_loop tbl nm newSector ty)"

definition Directory_Remove :: "Directory \<Rightarrow> char list \<Rightarrow> bool \<times> Directory" where
  "Directory_Remove tbl nm =
     (let i = Directory_FindIndex tbl nm in
      if i = - 1 then (False, tbl)
      else (True, tbl[nat i := (tbl ! nat i)\<lparr>inUse := False\<rparr>]))"

text \<open>
  The body of a file, read as the table of a directory, for every header sector:
  \<open>Directory::FetchFrom(file)\<close> reads the table from offset 0 of the file,
  \<open>Directory::WriteBack(file)\<close> writes it there. \<open>openfile.cc\<close> is not among the sources;
  the data sectors that hold a body are not modelled as raw sectors.
\<close>

type_synonym Bodies = "int \<Rightarrow> Directory"

text \<open>
  Modelled from the spec: \<open>Directory::RemoveRecursive(PersistentBitmap *freeMap)\<close>, which
  \<open>directory.h\<close> declares and \<open>FileSystem::RemoveDir\<close> calls, is defined in none of the
  sources (the \<open>RemoveRecursive()\<close> of \<open>directory.cc\<close> takes no argument and is not the
  function called). The spec: for every in-use entry whose type is DIR, recursively
  descend and remove; for every entry (file or dir), deallocate its header's blocks and
  free its header sector via the bitmap; then mark the entry unused. The header of an
  entry is read with \<open>FileHeader::FetchFrom\<close> and its blocks are given back with
  \<open>FileHeader::Deallocate\<close>, both of \<open>filehdr.cc\<close>; the header sector is cleared as
  \<open>RemoveDir\<close> and \<open>RemoveFile\<close> clear theirs. The recursion follows what the disk holds,
  so it has fuel.
\<close>

fun Directory_RemoveRecursive ::
  "nat \<Rightarrow> (nat \<Rightarrow> int) \<Rightarrow> Disk \<Rightarrow> Bodies \<Rightarrow> Directory \<Rightarrow> PersistentBitmap \<Rightarrow>
   error + (Directory \<times> PersistentBitmap)"
and Directory_RemoveRecursive_loop ::
  "nat \<Rightarrow> (nat \<Rightarrow> int) \<Rightarrow> Disk \<Rightarrow> Bodies \<Rightarrow> DirectoryEntry list \<Rightarrow> PersistentBitmap \<Rightarrow>
   error + (DirectoryEntry list \<times> PersistentBitmap)" where
  "Directory_RemoveRecursive 0 hdr_junk disk bodies tbl freeMap = Inl OutOfFuel"
| "Directory_RemoveRecursive (Suc fuel) hdr_junk disk bodies tbl freeMap =
     Directory_RemoveRecursive_loop fuel hdr_junk disk bodies tbl freeMap"
| "Directory_RemoveRecursive_loop fuel hdr_junk disk bodies [] freeMap = Inr ([], freeMap)"
| "Directory_RemoveRecursive_loop fuel hdr_junk disk bodies (e # es) freeMap =
     (if inUse e then
        (case (if fileType e = DIR_TYPE then
                 map_sum id snd
                   (Directory_RemoveRecursive fuel hdr_junk disk bodies (bodies (sector e)) freeMap)
               else Inr freeMap) of
           Inl err \<Rightarrow> Inl err
         | Inr freeMap1 \<Rightarrow>
             (case FileHeader_FetchFrom (new_FileHeader hdr_junk) disk (sector e) of
                Inl err \<Rightarrow> Inl err
              | Inr hdr \<Rightarrow>
                  (case FileHeader_Deallocate hdr freeMap1 of
                     Inl err \<Rightarrow> Inl err
                   | Inr (hdr', freeMap2) \<Rightarrow>
                       (case Directory_RemoveRecursive_loop fuel hdr_junk disk bodies es
                               (Clear freeMap2 (sector e)) of
                          Inl err \<Rightarrow> Inl err
                        | Inr (es', freeMap3) \<Rightarrow> Inr (e\<lparr>inUse := False\<rparr> # es', freeMap3)))))
      else
        (case Directory_RemoveRecursive_loop fuel hdr_junk disk bodies es freeMap of
           Inl err \<Rightarrow> Inl err
         | Inr (es', freeMap') \<Rightarrow> Inr (e # es', freeMap')))"

text \<open>
  A line of \<open>Directory::List\<close> and \<open>Directory::ListRecursive\<close>: the indentation, the index,
  the name and the letter that \<open>printf\<close> is given.
\<close>

type_synonym Line = "char list \<times> nat \<times> char list \<times> char"

fun Directory_List_loop :: "DirectoryEntry list \<Rightarrow> nat \<Rightarrow> Line list" where
  "Directory_List_loop [] i = []"
| "Directory_List_loop (e # es) i =
     (if inUse e then
        ([], i, cstr (name e), if fileType e = DIR_TYPE then CHR ''D'' else CHR ''F'')
          # Directory_List_loop es (Suc i)
      else Directory_List_loop es (Suc i))"

definition Directory_List :: "Directory \<Rightarrow> Line list" where
  "Directory_List tbl = Directory_List_loop tbl 0"

fun Directory_ListRecursive :: "nat \<Rightarrow> Directory \<Rightarrow> nat \<Rightarrow> Bodies \<Rightarrow> Line list option"
and Directory_ListRecursive_loop ::
  "nat \<Rightarrow> DirectoryEntry list \<Rightarrow> nat \<Rightarrow> nat \<Rightarrow> Bodies \<Rightarrow> Line list option" where
  "Directory_ListRecursive 0 tbl offset body = None"
| "Directory_ListRecursive (Suc fuel) tbl offset body = Directory_ListRecursive_loop fuel tbl 0 offset body"
| "Directory_ListRecursive_loop fuel [] i offset body = Some []"
| "Directory_ListRecursive_loop fuel (e # es) i offset body =
     (if inUse e then
        (if fileType e = DIR_TYPE then
           (case Directory_ListRecursive fuel (body (sector e)) (offset + 2) body of
              None \<Rightarrow> None
            | Some sub \<Rightarrow>
                (case Directory_ListRecursive_loop fuel es (Suc i) offset body of
                   None \<Rightarrow> None
                 | Some rest \<Rightarrow>
                     Some ((replicate offset CHR '' '', i, cstr (name e), CHR ''D'') # sub @ rest)))
         else
           (case Directory_ListRecursive_loop fuel es (Suc i) offset body of
              None \<Rightarrow> None
            | Some rest \<Rightarrow> Some (([], i, cstr (name e), CHR ''F'') # rest)))
      else Directory_ListRecursive_loop fuel es (Suc i) offset body)"

subsection \<open>Sequences of Add and Remove\<close>

text \<open>
  \<open>names_unique\<close>: no two entries in use hold the same name, where two names are the same
  when \<open>FindIndex\<close> takes them for the same, by \<open>strncmp\<close> on \<open>FileNameMaxLen\<close> bytes.
  \<open>run_ops\<close> applies a sequence of calls of \<open>Add\<close> and \<open>Remove\<close> to a table; a call that
  returns \<open>FALSE\<close> leaves the table as it was.
\<close>

definition names_unique :: "Directory \<Rightarrow> bool" where
  "names_unique tbl =
     (\<forall>i j. i < length tbl \<and> j < length tbl \<and> inUse (tbl ! i) \<and> inUse (tbl ! j)
            \<and> strncmp_eq (name (tbl ! i)) (name (tbl ! j)) FileNameMaxLen \<longrightarrow> i = j)"

datatype dir_op = AddOp "char list" int int | RemoveOp "char list"

fun run_ops :: "Directory \<Rightarrow> dir_op list \<Rightarrow> Directory" where
  "run_ops tbl [] = tbl"
| "run_ops tbl (AddOp nm s ty # ops) = run_ops (snd (Directory_Add tbl nm s ty)) ops"
| "run_ops tbl (RemoveOp nm # ops) = run_ops (snd (Directory_Remove tbl nm)) ops"

section \<open>FileSystem\<close>

definition FreeMapSector :: int where "FreeMapSector = 0"
definition DirectorySector :: int where "DirectorySector = 1"
definition PATH_DEPTH :: nat where "PATH_DEPTH = 25"
definition PATH_MAX_LEN :: nat where "PATH_MAX_LEN = PATH_DEPTH * FileNameMaxLen + 1"

text \<open>
  Modelled from the spec: \<open>openfile.h\<close> and \<open>openfile.cc\<close> are not among the sources. The
  spec: an open file wraps a header, identified by its sector, plus a byte position.
\<close>

record OpenFile =
  hdrSector :: int
  seekPosition :: int

definition new_OpenFile :: "int \<Rightarrow> OpenFile" where
  "new_OpenFile s = \<lparr>hdrSector = s, seekPosition = 0\<rparr>"

text \<open>
  The state of the file system and of the disk under it: the raw sectors that hold file
  headers and pointer blocks, the body of the bitmap file, the bodies of the other files
  read as directory tables, the two members \<open>currentDirectoryFile\<close> and \<open>currentDirectory\<close>,
  and the member \<open>table\<close> (a \<open>std::map<OpenFileId, OpenFile*>\<close>, here \<open>fs_table\<close>: a key
  maps to \<open>None\<close> when the pointer stored for it is null).
\<close>

record FileSystem =
  synchDisk :: Disk
  freeMapFile :: PersistentBitmap
  body :: Bodies
  currentDirectoryFile :: OpenFile
  currentDirectory :: Directory
  fs_table :: "int \<rightharpoonup> OpenFile option"

text \<open>
  \<open>std::map\<close>: \<open>table[fd]\<close> inserts a null pointer for a key that is absent and returns
  the pointer stored; \<open>table.insert({k, v})\<close> stores nothing when the key is present.
\<close>

definition map_index ::
  "(int \<rightharpoonup> OpenFile option) \<Rightarrow> int \<Rightarrow> OpenFile option \<times> (int \<rightharpoonup> OpenFile option)" where
  "map_index t fd = (case t fd of None \<Rightarrow> (None, t(fd \<mapsto> None)) | Some v \<Rightarrow> (v, t))"

definition map_insert ::
  "(int \<rightharpoonup> OpenFile option) \<Rightarrow> int \<Rightarrow> OpenFile option \<Rightarrow> (int \<rightharpoonup> OpenFile option)" where
  "map_insert t k v = (case t k of None \<Rightarrow> t(k \<mapsto> v) | Some old \<Rightarrow> t)"

definition map_erase :: "(int \<rightharpoonup> OpenFile option) \<Rightarrow> int \<Rightarrow> (int \<rightharpoonup> OpenFile option)" where
  "map_erase t k = t(k := None)"

text \<open>
  \<open>FileSystem::FileSystem(format = true)\<close>. \<open>NumSectors\<close> is a constant of \<open>disk.h\<close>,
  which is not among the sources, and a parameter here; \<open>FreeMapFileSize\<close> is
  \<open>NumSectors / BitsInByte\<close> and \<open>DirectoryFileSize\<close> is \<open>DIR_SIZE\<close>. The disk before is
  \<open>disk0\<close> and \<open>body0\<close>.
\<close>

definition FileSystem_format ::
  "nat \<Rightarrow> (nat \<Rightarrow> int) \<Rightarrow> (nat \<Rightarrow> int) \<Rightarrow> (nat \<Rightarrow> DirectoryEntry) \<Rightarrow> Disk \<Rightarrow> Bodies \<Rightarrow>
   error + FileSystem" where
  "FileSystem_format NumSectors map_junk dir_hdr_junk dir_junk disk0 body0 =
     (let freeMap = replicate NumSectors False;
          directory = new_Directory dir_junk NumDirEntries;
          freeMap = Mark freeMap FreeMapSector;
          freeMap = Mark freeMap DirectorySector in
      case FileHeader_Allocate (new_FileHeader map_junk) freeMap (int NumSectors div 8) of
        Inl e \<Rightarrow> Inl e
      | Inr (ok1, mapHdr, freeMap1) \<Rightarrow>
          if \<not> ok1 then Inl AssertionFailed
          else case FileHeader_Allocate (new_FileHeader dir_hdr_junk) freeMap1 DIR_SIZE of
            Inl e \<Rightarrow> Inl e
          | Inr (ok2, dirHdr, freeMap2) \<Rightarrow>
              if \<not> ok2 then Inl AssertionFailed
              else case FileHeader_WriteBack mapHdr FreeMapSector disk0 of
                Inl e \<Rightarrow> Inl e
              | Inr disk1 \<Rightarrow>
                  (case FileHeader_WriteBack dirHdr DirectorySector disk1 of
                     Inl e \<Rightarrow> Inl e
                   | Inr disk2 \<Rightarrow>
                       Inr \<lparr>synchDisk = disk2, freeMapFile = freeMap2,
                            body = body0(DirectorySector := directory),
                            currentDirectoryFile = new_OpenFile DirectorySector,
                            currentDirectory = directory,
                            fs_table = Map.empty\<rparr>))"

definition ResetToRootDirectory :: "FileSystem \<Rightarrow> FileSystem" where
  "ResetToRootDirectory fs =
     fs\<lparr>currentDirectoryFile := new_OpenFile DirectorySector,
        currentDirectory := body fs DirectorySector\<rparr>"

definition ChangeCurrentDirectory :: "FileSystem \<Rightarrow> char list \<Rightarrow> bool \<times> FileSystem" where
  "ChangeCurrentDirectory fs nm =
     (let fs = fs\<lparr>currentDirectory := body fs (hdrSector (currentDirectoryFile fs))\<rparr>;
          dirSector = Directory_Find (currentDirectory fs) nm in
      if dirSector = - 1 then (False, fs)
      else
        let fs = fs\<lparr>body := (body fs)(hdrSector (currentDirectoryFile fs) := currentDirectory fs)\<rparr>;
            fs = fs\<lparr>currentDirectoryFile := new_OpenFile dirSector\<rparr>
        in (True, fs\<lparr>currentDirectory := body fs dirSector\<rparr>))"

text \<open>
  The \<open>strtok(splitPath, "/")\<close> loop: the tokens of the path, the non-empty runs of bytes
  other than \<open>/\<close>. The second argument is the token being read.
\<close>

fun strtok_all :: "char list \<Rightarrow> char list \<Rightarrow> char list list" where
  "strtok_all [] cur = (if cur = [] then [] else [cur])"
| "strtok_all (c # cs) cur =
     (if c = CHR ''/'' then (if cur = [] then strtok_all cs [] else cur # strtok_all cs [])
      else strtok_all cs (cur @ [c]))"

text \<open>
  \<open>for (i = 0; i < pathLength - 1; i++) if (!ChangeCurrentDirectory(pathArr[i])) return false;\<close>
\<close>

fun traverse :: "FileSystem \<Rightarrow> char list list \<Rightarrow> bool \<times> FileSystem" where
  "traverse fs [] = (True, fs)"
| "traverse fs (d # ds) =
     (case ChangeCurrentDirectory fs d of
        (ok, fs') \<Rightarrow> if ok then traverse fs' ds else (False, fs'))"

text \<open>
  The result is the return value, the bytes left in \<open>filename\<close> and the state;
  \<open>currentPath\<close> is only ever copied, and left out. The three buffers are fixed arrays:
  \<open>strcpy(splitPath, path)\<close> needs a path shorter than \<open>PATH_MAX_LEN\<close>, \<open>pathArr\<close> holds
  \<open>PATH_DEPTH\<close> tokens, and \<open>strcpy(filename, ...)\<close> into \<open>char filename[FileNameMaxLen]\<close>
  needs a leaf shorter than \<open>FileNameMaxLen\<close>; a write past one of them is \<open>BufferOverflow\<close>.
\<close>

definition ChangeCurrentDirectoryByWholePath ::
  "FileSystem \<Rightarrow> char list \<Rightarrow> error + (bool \<times> char list \<times> FileSystem)" where
  "ChangeCurrentDirectoryByWholePath fs path =
     (let fs = ResetToRootDirectory fs in
      case cstr path of
        [] \<Rightarrow> Inr (False, [], fs)
      | c # cs \<Rightarrow>
          if c \<noteq> CHR ''/'' then Inr (False, [], fs)
          else if PATH_MAX_LEN \<le> length (cstr path) then Inl BufferOverflow
          else
            let pathArr = strtok_all (cstr path) [] in
            if PATH_DEPTH < length pathArr then Inl BufferOverflow
            else case traverse fs (butlast pathArr) of
              (ok, fs') \<Rightarrow>
                if \<not> ok then Inr (False, [], fs')
                else if pathArr = [] then Inr (True, [], fs')
                else if FileNameMaxLen \<le> length (last pathArr) then Inl BufferOverflow
                else Inr (True, last pathArr, fs'))"

definition CreateFile ::
  "(nat \<Rightarrow> int) \<Rightarrow> FileSystem \<Rightarrow> char list \<Rightarrow> int \<Rightarrow> error + (bool \<times> FileSystem)" where
  "CreateFile hdr_junk fs nm initialSize =
     (let fs = fs\<lparr>currentDirectory := body fs (hdrSector (currentDirectoryFile fs))\<rparr> in
      if Directory_Find (currentDirectory fs) nm \<noteq> - 1 then Inr (False, fs)
      else case FindAndSet (freeMapFile fs) of
        (sec, freeMap1) \<Rightarrow>
          if sec = - 1 then Inr (False, fs)
          else case Directory_Add (currentDirectory fs) nm sec FILE_TYPE of
            (added, dir') \<Rightarrow>
              let fs = fs\<lparr>currentDirectory := dir'\<rparr> in
              if \<not> added then Inr (False, fs)
              else case FileHeader_Allocate (new_FileHeader hdr_junk) freeMap1 initialSize of
                Inl e \<Rightarrow> Inl e
              | Inr (allocated, hdr, freeMap2) \<Rightarrow>
                  if \<not> allocated then Inr (False, fs)
                  else case FileHeader_WriteBack hdr sec (synchDisk fs) of
                    Inl e \<Rightarrow> Inl e
                  | Inr disk' \<Rightarrow>
                      Inr (True,
                        fs\<lparr>synchDisk := disk',
                           body := (body fs)(hdrSector (currentDirectoryFile fs) :=
                                     currentDirectory fs),
                           freeMapFile := freeMap2\<rparr>))"

definition CreateDirectory ::
  "(nat \<Rightarrow> int) \<Rightarrow> (nat \<Rightarrow> DirectoryEntry) \<Rightarrow> FileSystem \<Rightarrow> char list \<Rightarrow>
   error + (bool \<times> FileSystem)" where
  "CreateDirectory hdr_junk dir_junk fs nm =
     (let fs = fs\<lparr>currentDirectory := body fs (hdrSector (currentDirectoryFile fs))\<rparr> in
      if Directory_Find (currentDirectory fs) nm \<noteq> - 1 then Inr (False, fs)
      else case FindAndSet (freeMapFile fs) of
        (sec, freeMap1) \<Rightarrow>
          if sec = - 1 then Inr (False, fs)
          else case Directory_Add (currentDirectory fs) nm sec DIR_TYPE of
            (added, dir') \<Rightarrow>
              let fs = fs\<lparr>currentDirectory := dir'\<rparr> in
              if \<not> added then Inr (False, fs)
              else case FileHeader_Allocate (new_FileHeader hdr_junk) freeMap1 DIR_SIZE of
                Inl e \<Rightarrow> Inl e
              | Inr (allocated, hdr, freeMap2) \<Rightarrow>
                  if \<not> allocated then Inr (False, fs)
                  else case FileHeader_WriteBack hdr sec (synchDisk fs) of
                    Inl e \<Rightarrow> Inl e
                  | Inr disk' \<Rightarrow>
                      Inr (True,
                        fs\<lparr>synchDisk := disk',
                           body := (body fs)
                                     (sec := new_Directory dir_junk NumDirEntries,
                                      hdrSector (currentDirectoryFile fs) := currentDirectory fs),
                           freeMapFile := freeMap2\<rparr>))"

definition FileSystem_Create ::
  "(nat \<Rightarrow> int) \<Rightarrow> FileSystem \<Rightarrow> char list \<Rightarrow> int \<Rightarrow> error + (bool \<times> FileSystem)" where
  "FileSystem_Create hdr_junk fs path initialSize =
     (case ChangeCurrentDirectoryByWholePath fs path of
        Inl e \<Rightarrow> Inl e
      | Inr (ok, filename, fs1) \<Rightarrow>
          if ok then
            (case CreateFile hdr_junk fs1 filename initialSize of
               Inl e \<Rightarrow> Inl e
             | Inr (success, fs2) \<Rightarrow> Inr (success, ResetToRootDirectory fs2))
          else Inr (False, ResetToRootDirectory fs1))"

definition FileSystem_Open ::
  "FileSystem \<Rightarrow> char list \<Rightarrow> error + (OpenFile option \<times> FileSystem)" where
  "FileSystem_Open fs path =
     (case ChangeCurrentDirectoryByWholePath fs path of
        Inl e \<Rightarrow> Inl e
      | Inr (ok, filename, fs1) \<Rightarrow>
          if ok then
            (let sec = Directory_Find (currentDirectory fs1) filename in
             if 0 \<le> sec then Inr (Some (new_OpenFile sec), ResetToRootDirectory fs1)
             else Inr (None, ResetToRootDirectory fs1))
          else Inr (None, ResetToRootDirectory fs1))"

text \<open>
  \<open>OpenAFile\<close> declares \<open>int sector;\<close> and stores into it only when the path resolves;
  \<open>uninit\<close> is what the variable holds before.
\<close>

definition OpenAFile :: "int \<Rightarrow> FileSystem \<Rightarrow> char list \<Rightarrow> error + (int \<times> FileSystem)" where
  "OpenAFile uninit fs path =
     (case ChangeCurrentDirectoryByWholePath fs path of
        Inl e \<Rightarrow> Inl e
      | Inr (ok, filename, fs1) \<Rightarrow>
          if ok then
            (let sec = Directory_Find (currentDirectory fs1) filename in
             if 0 \<le> sec then
               Inr (sec, ResetToRootDirectory
                           (fs1\<lparr>fs_table := map_insert (fs_table fs1) sec (Some (new_OpenFile sec))\<rparr>))
             else Inr (sec, ResetToRootDirectory fs1))
          else Inr (uninit, ResetToRootDirectory fs1))"

text \<open>
  \<open>OpenFile::Write\<close> and \<open>OpenFile::Read\<close> are not among the sources; they are the
  parameters \<open>wr\<close> and \<open>rd\<close>: the count returned, the file object and the state after.
\<close>

definition WriteFile ::
  "(OpenFile \<Rightarrow> char list \<Rightarrow> int \<Rightarrow> FileSystem \<Rightarrow> int \<times> OpenFile \<times> FileSystem) \<Rightarrow>
   FileSystem \<Rightarrow> char list \<Rightarrow> int \<Rightarrow> int \<Rightarrow> int \<times> FileSystem" where
  "WriteFile wr fs buffer n fd =
     (case map_index (fs_table fs) fd of
        (openFile, t) \<Rightarrow>
          let fs = fs\<lparr>fs_table := t\<rparr> in
          (case openFile of
             None \<Rightarrow> (- 1, fs)
           | Some f \<Rightarrow>
               (case wr f buffer n fs of
                  (r, f', fs') \<Rightarrow> (r, fs'\<lparr>fs_table := (fs_table fs')(fd \<mapsto> Some f')\<rparr>))))"

definition ReadFile ::
  "(OpenFile \<Rightarrow> int \<Rightarrow> FileSystem \<Rightarrow> int \<times> char list \<times> OpenFile) \<Rightarrow>
   FileSystem \<Rightarrow> int \<Rightarrow> int \<Rightarrow> int \<times> char list \<times> FileSystem" where
  "ReadFile rd fs n fd =
     (case map_index (fs_table fs) fd of
        (openFile, t) \<Rightarrow>
          let fs = fs\<lparr>fs_table := t\<rparr> in
          (case openFile of
             None \<Rightarrow> (- 1, [], fs)
           | Some f \<Rightarrow>
               (case rd f n fs of
                  (r, buffer, f') \<Rightarrow> (r, buffer, fs\<lparr>fs_table := (fs_table fs)(fd \<mapsto> Some f')\<rparr>))))"

definition CloseFile :: "FileSystem \<Rightarrow> int \<Rightarrow> int \<times> FileSystem" where
  "CloseFile fs fd =
     (case map_index (fs_table fs) fd of
        (openFile, t) \<Rightarrow>
          let fs = fs\<lparr>fs_table := t\<rparr> in
          (case openFile of
             None \<Rightarrow> (0, fs)
           | Some f \<Rightarrow> (1, fs\<lparr>fs_table := map_erase (fs_table fs) fd\<rparr>)))"

text \<open>
  \<open>FileSystem::RemoveDir\<close>: the directory is read from its file, emptied by
  \<open>RemoveRecursive(freeMap)\<close> and written back; then its own header is fetched and
  deallocated and its header sector cleared. The \<open>Directory\<close> objects that the function
  creates are filled by \<open>FetchFrom\<close>, so what \<open>new\<close> left in them (\<open>dir_junk\<close>) is not read.
\<close>

definition RemoveDir ::
  "nat \<Rightarrow> (nat \<Rightarrow> int) \<Rightarrow> (nat \<Rightarrow> DirectoryEntry) \<Rightarrow> FileSystem \<Rightarrow> int \<Rightarrow> char list \<Rightarrow>
   error + FileSystem" where
  "RemoveDir fuel hdr_junk dir_junk fs sec dirName =
     (let freeMap = freeMapFile fs;
          removeDir = body fs sec in
      case Directory_RemoveRecursive fuel hdr_junk (synchDisk fs) (body fs) removeDir freeMap of
        Inl e \<Rightarrow> Inl e
      | Inr (removeDir', freeMap0) \<Rightarrow>
          let body2 = (body fs)(sec := removeDir') in
          (case FileHeader_FetchFrom (new_FileHeader hdr_junk) (synchDisk fs) sec of
             Inl e \<Rightarrow> Inl e
           | Inr fileHdr \<Rightarrow>
               (case FileHeader_Deallocate fileHdr freeMap0 of
                  Inl e \<Rightarrow> Inl e
                | Inr (fileHdr', freeMap1) \<Rightarrow>
                    let freeMap2 = Clear freeMap1 sec;
                        dir' = snd (Directory_Remove (currentDirectory fs) dirName)
                    in Inr (fs\<lparr>freeMapFile := freeMap2,
                               currentDirectory := dir',
                               body := body2(hdrSector (currentDirectoryFile fs) := dir')\<rparr>))))"

definition RemoveFile ::
  "(nat \<Rightarrow> int) \<Rightarrow> FileSystem \<Rightarrow> int \<Rightarrow> char list \<Rightarrow> error + FileSystem" where
  "RemoveFile hdr_junk fs sec fileName =
     (case FileHeader_FetchFrom (new_FileHeader hdr_junk) (synchDisk fs) sec of
        Inl e \<Rightarrow> Inl e
      | Inr fileHdr \<Rightarrow>
          (case FileHeader_Deallocate fileHdr (freeMapFile fs) of
             Inl e \<Rightarrow> Inl e
           | Inr (fileHdr', freeMap1) \<Rightarrow>
               let freeMap2 = Clear freeMap1 sec;
                   dir' = snd (Directory_Remove (currentDirectory fs) fileName)
               in Inr (fs\<lparr>freeMapFile := freeMap2,
                          currentDirectory := dir',
                          body := (body fs)(hdrSector (currentDirectoryFile fs) := dir')\<rparr>)))"

definition FileSystem_Remove ::
  "nat \<Rightarrow> (nat \<Rightarrow> int) \<Rightarrow> (nat \<Rightarrow> DirectoryEntry) \<Rightarrow> FileSystem \<Rightarrow> char list \<Rightarrow>
   error + (bool \<times> FileSystem)" where
  "FileSystem_Remove fuel hdr_junk dir_junk fs path =
     (case ChangeCurrentDirectoryByWholePath fs path of
        Inl e \<Rightarrow> Inl e
      | Inr (ok, filename, fs1) \<Rightarrow>
          if ok then
            (if cstr filename = [] then Inr (False, fs1)
             else
               let sec = Directory_Find (currentDirectory fs1) filename in
               if sec = - 1 then Inr (False, fs1)
               else if Directory_IsDirectory (currentDirectory fs1) filename then
                 (case RemoveDir fuel hdr_junk dir_junk fs1 sec filename of
                    Inl e \<Rightarrow> Inl e
                  | Inr fs2 \<Rightarrow> Inr (True, ResetToRootDirectory fs2))
               else
                 (case RemoveFile hdr_junk fs1 sec filename of
                    Inl e \<Rightarrow> Inl e
                  | Inr fs2 \<Rightarrow> Inr (True, ResetToRootDirectory fs2)))
          else Inr (True, ResetToRootDirectory fs1))"

definition FileSystem_List :: "FileSystem \<Rightarrow> char list \<Rightarrow> error + (Line list \<times> FileSystem)" where
  "FileSystem_List fs path =
     (case ChangeCurrentDirectoryByWholePath fs path of
        Inl e \<Rightarrow> Inl e
      | Inr (ok, filename, fs1) \<Rightarrow>
          if ok then
            (let fs2 = (if cstr filename \<noteq> [] then snd (ChangeCurrentDirectory fs1 filename)
                        else fs1)
             in Inr (Directory_List (currentDirectory fs2), ResetToRootDirectory fs2))
          else Inr ([], ResetToRootDirectory fs1))"

definition FileSystem_ListRecursive ::
  "nat \<Rightarrow> FileSystem \<Rightarrow> char list \<Rightarrow> error + (Line list \<times> FileSystem)" where
  "FileSystem_ListRecursive fuel fs path =
     (case ChangeCurrentDirectoryByWholePath fs path of
        Inl e \<Rightarrow> Inl e
      | Inr (ok, filename, fs1) \<Rightarrow>
          if ok then
            (let fs2 = (if cstr filename \<noteq> [] then snd (ChangeCurrentDirectory fs1 filename)
                        else fs1)
             in case Directory_ListRecursive fuel (currentDirectory fs2) 0 (body fs2) of
                  None \<Rightarrow> Inl OutOfFuel
                | Some out \<Rightarrow> Inr (out, ResetToRootDirectory fs2))
          else Inr ([], ResetToRootDirectory fs1))"

text \<open>
  What a call leaves on the disk, and whether the current directory is the root directory
  as \<open>ResetToRootDirectory\<close> leaves it.
\<close>

definition on_disk :: "FileSystem \<Rightarrow> Disk \<times> PersistentBitmap \<times> Bodies" where
  "on_disk fs = (synchDisk fs, freeMapFile fs, body fs)"

definition at_root :: "FileSystem \<Rightarrow> bool" where
  "at_root fs =
     (currentDirectoryFile fs = new_OpenFile DirectorySector
      \<and> currentDirectory fs = body fs DirectorySector)"

section \<open>A small file system\<close>

text \<open>
  The states in which the properties below are evaluated: a disk of 128 sectors is
  formatted; the directory \<open>/d\<close> is made by \<open>CreateDirectory\<close> in the directory that
  \<open>ChangeCurrentDirectoryByWholePath\<close> resolves; the file \<open>/d/f\<close> of 100 bytes is made by
  \<open>Create\<close>. New headers are created in zeroed memory, new directories in memory that
  holds \<open>junk_entry\<close> everywhere.
\<close>

definition and_then :: "error + 'a \<Rightarrow> ('a \<Rightarrow> error + 'b) \<Rightarrow> error + 'b" where
  "and_then r f = (case r of Inl e \<Rightarrow> Inl e | Inr x \<Rightarrow> f x)"

definition junk_entry :: DirectoryEntry where
  "junk_entry = \<lparr>inUse = True, fileType = 7, sector = 9, name = ''XXXXXXXXXX''\<rparr>"

definition example_formatted :: "error + FileSystem" where
  "example_formatted =
     FileSystem_format 128 (\<lambda>_. 0) (\<lambda>_. 0) (\<lambda>_. junk_entry) (\<lambda>_. []) (\<lambda>_. [])"

definition example_with_directory :: "error + (bool \<times> FileSystem)" where
  "example_with_directory =
     and_then example_formatted (\<lambda>fs.
       and_then (ChangeCurrentDirectoryByWholePath fs ''/d'') (\<lambda>(ok, filename, fs').
         CreateDirectory (\<lambda>_. 0) (\<lambda>_. junk_entry) fs' filename))"

definition example_with_file :: "error + (bool \<times> FileSystem)" where
  "example_with_file =
     and_then example_with_directory (\<lambda>(ok, fs). FileSystem_Create (\<lambda>_. 0) fs ''/d/f'' 100)"

text \<open>
  A second state: on the formatted disk, which has 100 free sectors, the file \<open>/big\<close>
  of 94 sectors takes 99 of them (its header, 4 single-indirect blocks and 94 data
  sectors), so that one sector is left.
\<close>

definition example_nearly_full :: "error + (bool \<times> FileSystem)" where
  "example_nearly_full =
     and_then example_formatted (\<lambda>fs. FileSystem_Create (\<lambda>_. 0) fs ''/big'' (94 * 128))"

definition example_fs :: FileSystem where
  "example_fs = snd (projr example_with_file)"

definition nearly_full_fs :: FileSystem where
  "nearly_full_fs = snd (projr example_nearly_full)"

section \<open>Properties\<close>

lemmas const_defs =
  SectorSize_def NUM_INT_IN_SECTOR_def NUM_FILE_HEADER_POINTER_def NUM_INDIRECT_POINTER_def
  LEVEL_1_SECTOR_NUM_def LEVEL_2_SECTOR_NUM_def LEVEL_3_SECTOR_NUM_def LEVEL_4_SECTOR_NUM_def
  LEVEL_1_SIZE_def LEVEL_2_SIZE_def LEVEL_3_SIZE_def LEVEL_4_SIZE_def
  LEVEL_1_def LEVEL_2_def LEVEL_3_def LEVEL_4_def SECTOR_NUM_IN_LEVEL_def

subsection \<open>The number of top-level pointers\<close>

text \<open>
  C1. A file of \<open>LEVEL_2_SIZE = 119040\<close> bytes passes the level selection (level 2), but
  \<open>FileHeader::Allocate\<close> then computes \<open>numPointer = \<lceil>930 / 30\<rceil> = 31\<close>, one more than
  \<open>NUM_FILE_HEADER_POINTER = 30\<close>, and its own \<open>ASSERT(numPointer <= NUM_FILE_HEADER_POINTER)\<close>
  fails, whatever the header and the bitmap are: the level bounds count 31 sectors for
  each single-indirect pointer, \<open>SECTOR_NUM_IN_LEVEL\<close> gives it 30.
\<close>

theorem Allocate_LEVEL_2_SIZE_assertion_fails:
  "LEVEL_2_SIZE = 119040
   \<and> divRoundUp (divRoundUp LEVEL_2_SIZE SectorSize) (SECTOR_NUM_IN_LEVEL ! 1) = 31
   \<and> NUM_FILE_HEADER_POINTER = 30
   \<and> FileHeader_Allocate hdr freeMap LEVEL_2_SIZE = Inl AssertionFailed"
  by (simp add: FileHeader_Allocate_def FileHeader_Allocate_pointers_def const_defs
      size_t_of_int_def divRoundUp_def Let_def)

text \<open>
  At level 2 the assertion holds exactly up to \<open>30 * 30\<close> sectors, 115200 bytes, and fails
  for every larger size that the level selection accepts for the level.
\<close>

lemma level_2_numPointer:
  assumes "LEVEL_1_SIZE < s" "s \<le> LEVEL_2_SIZE"
  shows "(divRoundUp (divRoundUp s SectorSize) (SECTOR_NUM_IN_LEVEL ! 1) \<le> NUM_FILE_HEADER_POINTER)
         = (s \<le> 115200)"
  using assms unfolding divRoundUp_def by (simp add: const_defs) linarith

lemma Allocate_top_of_level_2_assertion_fails:
  assumes "115200 < s" "s \<le> LEVEL_2_SIZE"
  shows "FileHeader_Allocate hdr freeMap s = Inl AssertionFailed"
proof -
  have n: "divRoundUp (divRoundUp s SectorSize) 30 = 31"
    using assms unfolding divRoundUp_def by (simp add: const_defs)
  have m: "s mod 2 ^ 32 = s"
    using assms by (simp add: const_defs)
  show ?thesis
    using assms n m
    by (simp add: FileHeader_Allocate_def FileHeader_Allocate_pointers_def const_defs
        size_t_of_int_def Let_def)
qed

text \<open>
  The other half of the property holds: the rounding up leaves room for the whole file.
\<close>

lemma divRoundUp_covers:
  assumes "0 < c"
  shows "s \<le> divRoundUp (divRoundUp s SectorSize) c * c * SectorSize"
proof -
  have a: "n \<le> divRoundUp n k * k" if "0 < k" for n k :: int
  proof -
    have "(- n) div k * k \<le> - n"
    proof -
      have "(- n) div k * k = - n - (- n) mod k" by (simp add: minus_mod_eq_div_mult)
      moreover have "0 \<le> (- n) mod k" using that by simp
      ultimately show ?thesis by linarith
    qed
    then show ?thesis by (simp add: divRoundUp_def)
  qed
  have "s \<le> divRoundUp s SectorSize * SectorSize"
    by (rule a) (simp add: SectorSize_def)
  also have "divRoundUp s SectorSize \<le> divRoundUp (divRoundUp s SectorSize) c * c"
    by (rule a [OF assms])
  finally show ?thesis by (simp add: SectorSize_def)
qed

subsection \<open>The level of a header\<close>





subsection \<open>What path resolution leaves unchanged\<close>

lemma Reset_disk: "on_disk (ResetToRootDirectory fs) = on_disk fs"
  by (simp add: ResetToRootDirectory_def on_disk_def)

lemma Reset_table: "fs_table (ResetToRootDirectory fs) = fs_table fs"
  by (simp add: ResetToRootDirectory_def)

lemma Reset_at_root: "at_root (ResetToRootDirectory fs)"
  by (simp add: ResetToRootDirectory_def at_root_def)

lemma ChangeCurrentDirectory_disk:
  "ChangeCurrentDirectory fs nm = (ok, fs') \<Longrightarrow>
   on_disk fs' = on_disk fs \<and> fs_table fs' = fs_table fs"
  by (auto simp: ChangeCurrentDirectory_def Let_def on_disk_def split: if_splits)

lemma traverse_disk:
  "traverse fs ds = (ok, fs') \<Longrightarrow> on_disk fs' = on_disk fs \<and> fs_table fs' = fs_table fs"
proof (induction ds arbitrary: fs)
  case Nil
  then show ?case by simp
next
  case (Cons d ds)
  obtain ok1 fs1 where c: "ChangeCurrentDirectory fs d = (ok1, fs1)"
    by (cases "ChangeCurrentDirectory fs d")
  from ChangeCurrentDirectory_disk [OF c] Cons c show ?case
    by (cases ok1) auto
qed

lemma ByWholePath_disk:
  assumes "ChangeCurrentDirectoryByWholePath fs path = Inr (ok, filename, fs')"
  shows "on_disk fs' = on_disk fs \<and> fs_table fs' = fs_table fs"
proof -
  have "\<And>ds ok' fs''. traverse (ResetToRootDirectory fs) ds = (ok', fs'') \<Longrightarrow>
          on_disk fs'' = on_disk fs \<and> fs_table fs'' = fs_table fs"
    using traverse_disk Reset_disk Reset_table by metis
  with assms show ?thesis
    by (auto simp: ChangeCurrentDirectoryByWholePath_def Let_def Reset_disk Reset_table
        split: list.splits if_splits prod.splits)
qed

subsection \<open>A failed Create\<close>

lemma CreateFile_failure_disk:
  assumes "CreateFile hdr_junk fs nm initialSize = Inr (False, fs')"
  shows "on_disk fs' = on_disk fs"
  using assms
  by (auto simp: CreateFile_def Let_def on_disk_def split: if_splits prod.splits sum.splits)

text \<open>
  C2. Whenever \<open>FileSystem::Create\<close> returns \<open>false\<close>, for any path, any initial size and
  any state, the bitmap file, the body of every directory file (the parent directory's
  among them) and every raw sector are what they were before the call: what the call
  changed of the bitmap and of the directory was changed in memory only.
\<close>

theorem Create_failure_leaves_disk_unchanged:
  assumes "FileSystem_Create hdr_junk fs path initialSize = Inr (False, fs')"
  shows "freeMapFile fs' = freeMapFile fs \<and> body fs' = body fs \<and> synchDisk fs' = synchDisk fs"
proof -
  have "on_disk fs' = on_disk fs"
    using assms
    by (auto simp: FileSystem_Create_def Reset_disk split: sum.splits prod.splits if_splits
        dest!: ByWholePath_disk CreateFile_failure_disk)
  then show ?thesis by (simp add: on_disk_def)
qed

text \<open>
  The witness is the out-of-space scenario of the spec: on the disk with one free sector,
  \<open>Create("/x", 3 * SectorSize)\<close> takes that sector for the header, adds the entry, and
  fails in \<open>FileHeader::Allocate\<close>.
\<close>

theorem Create_failure_leaves_disk_unchanged_witness:
  "map_sum id (\<lambda>(ok, fs). (ok, NumClear (freeMapFile fs))) example_nearly_full = Inr (True, 1)
   \<and> (\<exists>fs'. FileSystem_Create (\<lambda>_. 0) nearly_full_fs ''/x'' (3 * 128) = Inr (False, fs')
        \<and> freeMapFile fs' = freeMapFile nearly_full_fs
        \<and> body fs' = body nearly_full_fs
        \<and> synchDisk fs' = synchDisk nearly_full_fs)"
proof -
  have a: "map_sum id (\<lambda>(ok, fs). (ok, NumClear (freeMapFile fs))) example_nearly_full
             = Inr (True, 1)"
    by code_simp
  have "map_sum id fst (FileSystem_Create (\<lambda>_. 0) nearly_full_fs ''/x'' (3 * 128)) = Inr False"
    by code_simp
  then obtain fs' where
    b: "FileSystem_Create (\<lambda>_. 0) nearly_full_fs ''/x'' (3 * 128) = Inr (False, fs')"
    by (cases "FileSystem_Create (\<lambda>_. 0) nearly_full_fs ''/x'' (3 * 128)") auto
  from Create_failure_leaves_disk_unchanged [OF b] a b show ?thesis
    by blast
qed

subsection \<open>Removal\<close>

text \<open>
  C4. In the small file system the root directory has no entry \<open>nodir\<close>, so the
  intermediate component of \<open>/nodir/f\<close> is missing; \<open>Remove("/nodir/f")\<close> returns \<open>TRUE\<close>
  all the same, with the bitmap as it was and \<open>d\<close> still in the root directory: nothing
  was removed.
\<close>

theorem Remove_unresolved_path_returns_true:
  "and_then example_with_file
     (\<lambda>(ok, fs).
        map_sum id
          (\<lambda>(removed, fs'). (Directory_Find (body fs DirectorySector) ''nodir'', removed,
                            freeMapFile fs' = freeMapFile fs,
                            Directory_Find (body fs' DirectorySector) ''d''))
          (FileSystem_Remove 3 (\<lambda>_. 0) (\<lambda>_. junk_entry) fs ''/nodir/f''))
   = Inr (- 1, True, True, 28)"
  by code_simp

lemma Remove_returns_true_when_path_unresolved:
  "ChangeCurrentDirectoryByWholePath fs path = Inr (False, filename, fs1) \<Longrightarrow>
   FileSystem_Remove fuel hdr_junk dir_junk fs path = Inr (True, ResetToRootDirectory fs1)"
  by (simp add: FileSystem_Remove_def)

lemma Remove_returns_false_when_leaf_absent:
  "ChangeCurrentDirectoryByWholePath fs path = Inr (True, filename, fs1) \<Longrightarrow>
   Directory_Find (currentDirectory fs1) filename = - 1 \<Longrightarrow>
   FileSystem_Remove fuel hdr_junk dir_junk fs path = Inr (False, fs1)"
  by (simp add: FileSystem_Remove_def)

subsection \<open>Opening by path\<close>

text \<open>
  C5. In the small file system \<open>OpenAFile("/nodir/f")\<close>, whose intermediate component is
  missing, returns what its local variable \<open>sector\<close> held before the call, whatever that
  is, and not \<open>-1\<close>.
\<close>

theorem OpenAFile_unresolved_path_returns_uninitialised:
  "and_then example_with_file
     (\<lambda>(ok, fs). map_sum id fst (OpenAFile uninit fs ''/nodir/f''))
   = Inr uninit"
  by code_simp

lemma OpenAFile_when_path_unresolved:
  "ChangeCurrentDirectoryByWholePath fs path = Inr (False, filename, fs1) \<Longrightarrow>
   OpenAFile uninit fs path = Inr (uninit, ResetToRootDirectory fs1)"
  by (simp add: OpenAFile_def)

lemma OpenAFile_when_path_resolved:
  "ChangeCurrentDirectoryByWholePath fs path = Inr (True, filename, fs1) \<Longrightarrow>
   OpenAFile uninit fs path = Inr (r, fs2) \<Longrightarrow>
   r = Directory_Find (currentDirectory fs1) filename"
  by (auto simp: OpenAFile_def Let_def split: if_splits)

subsection \<open>Names in a directory\<close>

text \<open>
  C8. \<open>Directory::Add\<close> of the nine-character name \<open>abcdefghi\<close> to a new directory
  succeeds; \<open>strncpy(table[i].name, name, FileNameMaxLen)\<close> writes the nine characters and
  no NUL, and the tenth byte of \<open>name\<close> is the byte that the memory of the new directory
  held, here \<open>X\<close>: the name stored in the entry in use holds no NUL.
\<close>

theorem Add_nine_characters_not_NUL_terminated:
  "(case Directory_Add (new_Directory (\<lambda>_. junk_entry) NumDirEntries) ''abcdefghi'' 5 FILE_TYPE of
     (ok, tbl) \<Rightarrow> (ok, inUse (tbl ! 0), name (tbl ! 0), NUL \<in> set (name (tbl ! 0))))
   = (True, True, ''abcdefghiX'', False)"
  by code_simp

text \<open>
  The other half of the property holds: \<open>Add\<close> refuses a name that \<open>FindIndex\<close> finds, so
  after any sequence of calls of \<open>Add\<close> and \<open>Remove\<close> on a new directory no two entries in
  use hold the same name.
\<close>

lemma FindIndex_loop_none:
  "Directory_FindIndex_loop tbl i nm = - 1 \<Longrightarrow>
   \<forall>e\<in>set tbl. \<not> (inUse e \<and> strncmp_eq (name e) nm FileNameMaxLen)"
  by (induction tbl arbitrary: i) (auto split: if_splits)

lemma cstr_no_NUL: "NUL \<notin> set (cstr s)"
  by (auto simp: cstr_def dest: set_takeWhileD)

lemma cstr_append_clean: "NUL \<notin> set xs \<Longrightarrow> cstr (xs @ ys) = xs @ cstr ys"
  by (induction xs) (auto simp: cstr_def)

lemma cstr_NUL: "cstr (NUL # ys) = []"
  by (simp add: cstr_def)

lemma strncpy_prefix:
  "take n (cstr (strncpy dst src n)) = take n (cstr src)"
proof -
  let ?s = "take n (cstr src)"
  have clean: "NUL \<notin> set ?s"
    using cstr_no_NUL [of src] by (auto dest: in_set_takeD)
  show ?thesis
  proof (cases "length ?s < n")
    case True
    then have "replicate (n - length ?s) NUL = NUL # replicate (n - length ?s - 1) NUL"
      by (cases "n - length ?s") auto
    then have "cstr (strncpy dst src n) = ?s"
      using clean by (simp add: strncpy_def Let_def cstr_append_clean cstr_NUL)
    then show ?thesis by simp
  next
    case False
    then have n: "length ?s = n" by simp
    then have "cstr (strncpy dst src n) = ?s @ cstr (drop n dst)"
      using clean by (simp add: strncpy_def Let_def cstr_append_clean)
    with n show ?thesis by simp
  qed
qed

lemma strncmp_eq_strncpy:
  "strncmp_eq (strncpy dst src n) x n = strncmp_eq src x n"
  by (simp add: strncmp_eq_def strncpy_prefix)

lemma Add_loop_result:
  "Directory_Add_loop tbl nm s ty = (ok, tbl') \<Longrightarrow>
   (if ok then \<exists>k. k < length tbl \<and> \<not> inUse (tbl ! k)
                 \<and> tbl' = tbl[k := (tbl ! k)\<lparr>inUse := True,
                              name := strncpy (name (tbl ! k)) nm FileNameMaxLen,
                              sector := s, fileType := ty\<rparr>]
    else tbl' = tbl)"
proof (induction tbl arbitrary: ok tbl')
  case Nil
  then show ?case by simp
next
  case (Cons e es)
  show ?case
  proof (cases "inUse e")
    case False
    with Cons.prems have "ok" and
      "tbl' = (e # es)[0 := ((e # es) ! 0)\<lparr>inUse := True,
                 name := strncpy (name ((e # es) ! 0)) nm FileNameMaxLen,
                 sector := s, fileType := ty\<rparr>]"
      by auto
    with False show ?thesis by (auto intro!: exI [of _ 0])
  next
    case True
    with Cons.prems obtain es' where
      r: "Directory_Add_loop es nm s ty = (ok, es')" and t: "tbl' = e # es'"
      by (auto split: prod.splits)
    from Cons.IH [OF r] show ?thesis
    proof (cases ok)
      case True
      with Cons.IH [OF r] obtain k where
        k: "k < length es" "\<not> inUse (es ! k)"
           "es' = es[k := (es ! k)\<lparr>inUse := True,
                     name := strncpy (name (es ! k)) nm FileNameMaxLen,
                     sector := s, fileType := ty\<rparr>]"
        by auto
      with t True show ?thesis by (auto intro!: exI [of _ "Suc k"])
    next
      case False
      with Cons.IH [OF r] t show ?thesis by simp
    qed
  qed
qed

lemma strncmp_eq_sym: "strncmp_eq a b n = strncmp_eq b a n"
  by (auto simp: strncmp_eq_def)

lemma Add_unique:
  assumes u: "names_unique tbl"
  shows "names_unique (snd (Directory_Add tbl nm s ty))"
proof (cases "Directory_FindIndex tbl nm \<noteq> - 1")
  case True
  with u show ?thesis by (simp add: Directory_Add_def)
next
  case False
  then have none: "\<forall>e\<in>set tbl. \<not> (inUse e \<and> strncmp_eq (name e) nm FileNameMaxLen)"
    using FindIndex_loop_none [of tbl 0 nm] by (simp add: Directory_FindIndex_def)
  obtain ok tbl' where a: "Directory_Add_loop tbl nm s ty = (ok, tbl')"
    by (cases "Directory_Add_loop tbl nm s ty")
  show ?thesis
  proof (cases ok)
    case False
    with Add_loop_result [OF a] a u \<open>\<not> Directory_FindIndex tbl nm \<noteq> - 1\<close> show ?thesis
      by (simp add: Directory_Add_def)
  next
    case True
    with Add_loop_result [OF a] obtain k where
      k: "k < length tbl" "\<not> inUse (tbl ! k)" and
      t: "tbl' = tbl[k := (tbl ! k)\<lparr>inUse := True,
                     name := strncpy (name (tbl ! k)) nm FileNameMaxLen,
                     sector := s, fileType := ty\<rparr>]"
      by auto
    have new: "\<not> strncmp_eq (name (tbl' ! k)) (name (tbl ! j)) FileNameMaxLen"
      if "j < length tbl" "inUse (tbl ! j)" for j
    proof -
      from that none nth_mem [of j tbl]
      have "\<not> strncmp_eq (name (tbl ! j)) nm FileNameMaxLen"
        by blast
      then show ?thesis
        using k t by (simp add: strncmp_eq_strncpy strncmp_eq_sym [of nm])
    qed
    have "names_unique tbl'"
      unfolding names_unique_def
    proof (intro allI impI)
      fix i j
      assume h: "i < length tbl' \<and> j < length tbl' \<and> inUse (tbl' ! i) \<and> inUse (tbl' ! j)
            \<and> strncmp_eq (name (tbl' ! i)) (name (tbl' ! j)) FileNameMaxLen"
      show "i = j"
      proof (rule ccontr)
        assume ne: "i \<noteq> j"
        consider "i = k" | "j = k" | "i \<noteq> k" "j \<noteq> k" by blast
        then show False
        proof cases
          case 1
          with ne h t have "j < length tbl" "inUse (tbl ! j)" "tbl' ! j = tbl ! j" by auto
          with new [of j] h 1 show False by simp
        next
          case 2
          with ne h t have "i < length tbl" "inUse (tbl ! i)" "tbl' ! i = tbl ! i" by auto
          with new [of i] h 2 show False by (simp add: strncmp_eq_sym [of "name (tbl ! i)"])
        next
          case 3
          with h t have "i < length tbl \<and> j < length tbl \<and> inUse (tbl ! i) \<and> inUse (tbl ! j)
            \<and> strncmp_eq (name (tbl ! i)) (name (tbl ! j)) FileNameMaxLen"
            by auto
          with u ne show False unfolding names_unique_def by blast
        qed
      qed
    qed
    with a \<open>\<not> Directory_FindIndex tbl nm \<noteq> - 1\<close> show ?thesis
      by (simp add: Directory_Add_def)
  qed
qed

lemma Remove_unique:
  assumes u: "names_unique tbl"
  shows "names_unique (snd (Directory_Remove tbl nm))"
proof (cases "Directory_FindIndex tbl nm = - 1")
  case True
  with u show ?thesis by (simp add: Directory_Remove_def)
next
  case False
  let ?k = "nat (Directory_FindIndex tbl nm)"
  have "names_unique (tbl[?k := (tbl ! ?k)\<lparr>inUse := False\<rparr>])"
    unfolding names_unique_def
  proof (intro allI impI)
    fix i j
    let ?t = "tbl[?k := (tbl ! ?k)\<lparr>inUse := False\<rparr>]"
    assume h: "i < length ?t \<and> j < length ?t \<and> inUse (?t ! i) \<and> inUse (?t ! j)
            \<and> strncmp_eq (name (?t ! i)) (name (?t ! j)) FileNameMaxLen"
    then have "i \<noteq> ?k" "j \<noteq> ?k" by (auto simp: nth_list_update split: if_splits)
    with h have "i < length tbl \<and> j < length tbl \<and> inUse (tbl ! i) \<and> inUse (tbl ! j)
            \<and> strncmp_eq (name (tbl ! i)) (name (tbl ! j)) FileNameMaxLen"
      by auto
    with u show "i = j" unfolding names_unique_def by blast
  qed
  with False show ?thesis by (simp add: Directory_Remove_def Let_def)
qed

lemma new_Directory_unique: "names_unique (new_Directory junk n)"
  by (auto simp: names_unique_def new_Directory_def)

lemma run_ops_unique: "names_unique tbl \<Longrightarrow> names_unique (run_ops tbl ops)"
proof (induction ops arbitrary: tbl)
  case Nil
  then show ?case by simp
next
  case (Cons op ops)
  then show ?case
    by (cases op) (auto intro: Add_unique Remove_unique)
qed

lemma names_stay_unique: "names_unique (run_ops (new_Directory junk n) ops)"
  by (rule run_ops_unique [OF new_Directory_unique])

subsection \<open>The current directory after a call\<close>

text \<open>
  C9. In the small file system \<open>Remove("/d/x")\<close> finds no \<open>x\<close> in \<open>/d\<close> and returns
  \<open>FALSE\<close> from inside the \<open>if\<close>, before \<open>ResetToRootDirectory\<close>: the current directory
  file is then the file of \<open>/d\<close> (header sector 28), not the root directory's, and the
  current directory is not the table of the root directory.
\<close>

theorem Remove_absent_leaf_leaves_current_directory:
  "and_then example_with_file
     (\<lambda>(ok, fs).
        map_sum id
          (\<lambda>(removed, fs'). (removed, hdrSector (currentDirectoryFile fs'), DirectorySector,
                            currentDirectory fs' = body fs' DirectorySector))
          (FileSystem_Remove 3 (\<lambda>_. 0) (\<lambda>_. junk_entry) fs ''/d/x''))
   = Inr (False, 28, 1, False)"
  by code_simp

lemma Create_ends_at_root:
  "FileSystem_Create hdr_junk fs path initialSize = Inr (r, fs') \<Longrightarrow> at_root fs'"
  by (auto simp: FileSystem_Create_def Reset_at_root split: sum.splits prod.splits if_splits)

lemma Open_ends_at_root:
  "FileSystem_Open fs path = Inr (r, fs') \<Longrightarrow> at_root fs'"
  by (auto simp: FileSystem_Open_def Let_def Reset_at_root split: sum.splits prod.splits if_splits)

lemma OpenAFile_ends_at_root:
  "OpenAFile uninit fs path = Inr (r, fs') \<Longrightarrow> at_root fs'"
  by (auto simp: OpenAFile_def Let_def Reset_at_root split: sum.splits prod.splits if_splits)

lemma List_ends_at_root:
  "FileSystem_List fs path = Inr (r, fs') \<Longrightarrow> at_root fs'"
  by (auto simp: FileSystem_List_def Let_def Reset_at_root split: sum.splits prod.splits if_splits)

lemma ListRecursive_ends_at_root:
  "FileSystem_ListRecursive fuel fs path = Inr (r, fs') \<Longrightarrow> at_root fs'"
  by (auto simp: FileSystem_ListRecursive_def Let_def Reset_at_root
      split: sum.splits prod.splits if_splits option.splits)

lemma Remove_true_ends_at_root:
  "FileSystem_Remove fuel hdr_junk dir_junk fs path = Inr (True, fs') \<Longrightarrow> at_root fs'"
  by (auto simp: FileSystem_Remove_def Let_def Reset_at_root
      split: sum.splits prod.splits if_splits)

subsection \<open>Unknown open-file ids\<close>

text \<open>
  C10. When \<open>fd\<close> is not a key of the open-file table, \<open>ReadFile\<close>, \<open>WriteFile\<close> and
  \<open>CloseFile\<close> return \<open>-1\<close>, \<open>-1\<close> and \<open>0\<close>, and each leaves the table with \<open>fd\<close> mapped to a
  null pointer. When a path then resolves to a file whose header sector is \<open>fd\<close>,
  \<open>OpenAFile\<close> returns \<open>fd\<close>, but its \<open>insert\<close> finds the key present and stores nothing:
  \<open>fd\<close> is still mapped to the null pointer.
\<close>

theorem unknown_fd_inserts_null_handle:
  assumes "fs_table fs fd = None"
  shows "ReadFile rd fs n fd = (- 1, [], fs\<lparr>fs_table := (fs_table fs)(fd \<mapsto> None)\<rparr>)
       \<and> WriteFile wr fs buffer n fd = (- 1, fs\<lparr>fs_table := (fs_table fs)(fd \<mapsto> None)\<rparr>)
       \<and> CloseFile fs fd = (0, fs\<lparr>fs_table := (fs_table fs)(fd \<mapsto> None)\<rparr>)
       \<and> (\<forall>path filename fs1 uninit.
            ChangeCurrentDirectoryByWholePath (fs\<lparr>fs_table := (fs_table fs)(fd \<mapsto> None)\<rparr>) path
              = Inr (True, filename, fs1)
            \<and> Directory_Find (currentDirectory fs1) filename = fd \<and> 0 \<le> fd
            \<longrightarrow> (\<exists>fs2. OpenAFile uninit (fs\<lparr>fs_table := (fs_table fs)(fd \<mapsto> None)\<rparr>) path
                         = Inr (fd, fs2)
                       \<and> fs_table fs2 fd = Some None))"
proof -
  let ?fs = "fs\<lparr>fs_table := (fs_table fs)(fd \<mapsto> None)\<rparr>"
  have calls: "ReadFile rd fs n fd = (- 1, [], ?fs) \<and> WriteFile wr fs buffer n fd = (- 1, ?fs)
               \<and> CloseFile fs fd = (0, ?fs)"
    using assms by (simp add: ReadFile_def WriteFile_def CloseFile_def map_index_def)
  have later: "\<exists>fs2. OpenAFile uninit ?fs path = Inr (fd, fs2) \<and> fs_table fs2 fd = Some None"
    if r: "ChangeCurrentDirectoryByWholePath ?fs path = Inr (True, filename, fs1)"
      and f: "Directory_Find (currentDirectory fs1) filename = fd" and p: "0 \<le> fd"
    for path filename fs1 uninit
  proof -
    from ByWholePath_disk [OF r] have "fs_table fs1 fd = Some None" by simp
    with r f p show ?thesis
      by (simp add: OpenAFile_def Let_def map_insert_def Reset_table)
  qed
  from calls later show ?thesis by blast
qed

theorem unknown_fd_inserts_null_handle_witness:
  "fs_table example_fs 53 = None
   \<and> ReadFile (\<lambda>f n fs. (0, [], f)) example_fs 1 53
       = (- 1, [], example_fs\<lparr>fs_table := (fs_table example_fs)(53 \<mapsto> None)\<rparr>)
   \<and> WriteFile (\<lambda>f b n fs. (0, f, fs)) example_fs ''a'' 1 53
       = (- 1, example_fs\<lparr>fs_table := (fs_table example_fs)(53 \<mapsto> None)\<rparr>)
   \<and> CloseFile example_fs 53
       = (0, example_fs\<lparr>fs_table := (fs_table example_fs)(53 \<mapsto> None)\<rparr>)
   \<and> (\<exists>fs2. OpenAFile 0 (example_fs\<lparr>fs_table := (fs_table example_fs)(53 \<mapsto> None)\<rparr>) ''/d/f''
               = Inr (53, fs2)
             \<and> fs_table fs2 53 = Some None)"
proof -
  let ?fs = "example_fs\<lparr>fs_table := (fs_table example_fs)(53 \<mapsto> None)\<rparr>"
  have a: "fs_table example_fs 53 = None"
    by code_simp
  have "map_sum id (\<lambda>(ok, filename, fs1). (ok, filename, Directory_Find (currentDirectory fs1) filename))
          (ChangeCurrentDirectoryByWholePath ?fs ''/d/f'') = Inr (True, ''f'', 53)"
    by code_simp
  then obtain fs1 where
    b: "ChangeCurrentDirectoryByWholePath ?fs ''/d/f'' = Inr (True, ''f'', fs1)" and
    c: "Directory_Find (currentDirectory fs1) ''f'' = 53"
    by (cases "ChangeCurrentDirectoryByWholePath ?fs ''/d/f''") auto
  note t = unknown_fd_inserts_null_handle
             [OF a, of "\<lambda>f n fs. (0, [], f)" 1 "\<lambda>f b n fs. (0, f, fs)" "''a''"]
  from t have calls:
    "ReadFile (\<lambda>f n fs. (0, [], f)) example_fs 1 53 = (- 1, [], ?fs)
     \<and> WriteFile (\<lambda>f b n fs. (0, f, fs)) example_fs ''a'' 1 53 = (- 1, ?fs)
     \<and> CloseFile example_fs 53 = (0, ?fs)"
    by blast
  from t have
    "ChangeCurrentDirectoryByWholePath ?fs ''/d/f'' = Inr (True, ''f'', fs1)
       \<and> Directory_Find (currentDirectory fs1) ''f'' = 53 \<and> (0::int) \<le> 53
     \<longrightarrow> (\<exists>fs2. OpenAFile 0 ?fs ''/d/f'' = Inr (53, fs2) \<and> fs_table fs2 53 = Some None)"
    by blast
  with b c have "\<exists>fs2. OpenAFile 0 ?fs ''/d/f'' = Inr (53, fs2) \<and> fs_table fs2 53 = Some None"
    by simp
  with a calls show ?thesis by simp
qed

subsection \<open>The round trip of a header through the disk\<close>

lemma first_clear_Some:
  "first_clear bm = Some i \<Longrightarrow> i < length bm \<and> \<not> bm ! i"
  by (induction bm arbitrary: i) (auto split: if_splits)

lemma FindAndSet_free:
  assumes "FindAndSet bm = (s, bm')" and "0 \<le> s"
  shows "s \<in> free bm \<and> free bm' = free bm - {s}"
proof -
  from assms obtain i where i: "first_clear bm = Some i" "s = int i" "bm' = bm[i := True]"
    by (auto simp: FindAndSet_def split: option.splits)
  from first_clear_Some [OF i(1)] have "i < length bm" "\<not> bm ! i" by auto
  then show ?thesis
    using i(2,3) by (auto simp: free_def nth_list_update)
qed

lemma reserve_loop_spec:
  "reserve_loop k i ps fm = Inr (ps', fm') \<Longrightarrow>
   length ps' = length ps \<and> (k = 0 \<or> i + k \<le> length ps)
   \<and> (\<forall>j. j < i \<or> i + k \<le> j \<longrightarrow> ps' ! j = ps ! j)
   \<and> distinct (map ((!) ps') [i..<i + k])
   \<and> set (map ((!) ps') [i..<i + k]) \<subseteq> free fm
   \<and> free fm' = free fm - set (map ((!) ps') [i..<i + k])"
proof (induction k arbitrary: i ps fm)
  case 0
  then show ?case by simp
next
  case (Suc k)
  let ?new = "map ((!) ps') [Suc i..<Suc i + k]"
  from Suc.prems obtain s fm1 where
    f: "FindAndSet fm = (s, fm1)" and s: "0 \<le> s" and i: "i < length ps" and
    r: "reserve_loop k (Suc i) (ps[i := s]) fm1 = Inr (ps', fm')"
    by (auto split: if_splits prod.splits)
  from FindAndSet_free [OF f s] have fs: "s \<in> free fm" "free fm1 = free fm - {s}" by auto
  from Suc.IH [OF r] have
    l: "length ps' = length ps" and b: "k = 0 \<or> Suc i + k \<le> length ps" and
    u: "\<forall>j. j < Suc i \<or> Suc i + k \<le> j \<longrightarrow> ps' ! j = (ps[i := s]) ! j" and
    d: "distinct ?new" and
    sub: "set ?new \<subseteq> free fm1" and
    fr: "free fm' = free fm1 - set ?new"
    by auto
  from u i have pi: "ps' ! i = s" by simp
  have range: "map ((!) ps') [i..<i + Suc k] = s # ?new"
    using pi by (simp add: upt_rec)
  from u have u': "\<forall>j. j < i \<or> i + Suc k \<le> j \<longrightarrow> ps' ! j = ps ! j"
    by auto
  from sub fs have notin: "s \<notin> set ?new" by auto
  from b i have bound: "i + Suc k \<le> length ps" by auto
  have 1: "distinct (s # ?new)" using d notin by simp
  have 2: "set (s # ?new) \<subseteq> free fm" using sub fs by auto
  have 3: "free fm' = free fm - set (s # ?new)" using fr fs by auto
  from l bound u' 1 2 3 show ?case
    unfolding range by blast
qed

lemma blocks_of_Cons: "blocks_of B ps tbl (j # js) = ps ! j # B (tbl ! j) @ blocks_of B ps tbl js"
  by (simp add: blocks_of_def)

lemma blocks_of_Nil: "blocks_of B ps tbl [] = []"
  by (simp add: blocks_of_def)

lemma in_blocks_of:
  "j \<in> set js \<Longrightarrow> x = ps ! j \<or> x \<in> set (B (tbl ! j)) \<Longrightarrow> x \<in> set (blocks_of B ps tbl js)"
  by (auto simp: blocks_of_def)

lemma writeback_loop_roundtrip:
  assumes "i + k \<le> length ps" "i + k \<le> length tbl"
    and "\<forall>j. i \<le> j \<and> j < i + k \<longrightarrow> 0 \<le> ps ! j \<and> roundtrips wb fetch fresh (tbl ! j) (B (tbl ! j))"
    and "distinct (blocks_of B ps tbl [i..<i + k])"
  shows "\<exists>disk'. writeback_loop wb k i ps tbl disk = Inr disk'
       \<and> (\<forall>x. x \<notin> set (blocks_of B ps tbl [i..<i + k]) \<longrightarrow> disk' x = disk x)
       \<and> (\<forall>j disk''. i \<le> j \<and> j < i + k
             \<and> (\<forall>x. x = ps ! j \<or> x \<in> set (B (tbl ! j)) \<longrightarrow> disk'' x = disk' x)
             \<longrightarrow> fetch fresh disk'' (ps ! j) = Inr (tbl ! j))"
  using assms
proof (induction k arbitrary: i disk)
  case 0
  then show ?case by (auto simp: blocks_of_Nil)
next
  case (Suc k)
  let ?rest = "blocks_of B ps tbl [Suc i..<Suc i + k]"
  have range: "[i..<i + Suc k] = i # [Suc i..<Suc i + k]"
    by (simp add: upt_rec)
  from Suc.prems(4) have
    d0: "ps ! i \<notin> set (B (tbl ! i))" and
    d1: "ps ! i \<notin> set ?rest" and
    d2: "set (B (tbl ! i)) \<inter> set ?rest = {}" and
    d3: "distinct ?rest"
    unfolding range blocks_of_Cons by auto
  from Suc.prems(3) have pos: "0 \<le> ps ! i" and
    rt: "roundtrips wb fetch fresh (tbl ! i) (B (tbl ! i))"
    by auto
  from rt d0 obtain disk1 where
    w: "wb (tbl ! i) (ps ! i) disk = Inr disk1" and
    fr1: "\<forall>x. x \<noteq> ps ! i \<and> x \<notin> set (B (tbl ! i)) \<longrightarrow> disk1 x = disk x" and
    ft1: "\<forall>disk''. (\<forall>x. x = ps ! i \<or> x \<in> set (B (tbl ! i)) \<longrightarrow> disk'' x = disk1 x) \<longrightarrow>
             fetch fresh disk'' (ps ! i) = Inr (tbl ! i)"
    unfolding roundtrips_def by blast
  have "\<exists>disk'. writeback_loop wb k (Suc i) ps tbl disk1 = Inr disk'
       \<and> (\<forall>x. x \<notin> set ?rest \<longrightarrow> disk' x = disk1 x)
       \<and> (\<forall>j disk''. Suc i \<le> j \<and> j < Suc i + k
             \<and> (\<forall>x. x = ps ! j \<or> x \<in> set (B (tbl ! j)) \<longrightarrow> disk'' x = disk' x)
             \<longrightarrow> fetch fresh disk'' (ps ! j) = Inr (tbl ! j))"
    using Suc.prems(1,2,3) d3 by (intro Suc.IH) auto
  then obtain disk' where
    l: "writeback_loop wb k (Suc i) ps tbl disk1 = Inr disk'" and
    fr2: "\<forall>x. x \<notin> set ?rest \<longrightarrow> disk' x = disk1 x" and
    ft2: "\<forall>j disk''. Suc i \<le> j \<and> j < Suc i + k
             \<and> (\<forall>x. x = ps ! j \<or> x \<in> set (B (tbl ! j)) \<longrightarrow> disk'' x = disk' x)
             \<longrightarrow> fetch fresh disk'' (ps ! j) = Inr (tbl ! j)"
    by blast
  have run: "writeback_loop wb (Suc k) i ps tbl disk = Inr disk'"
    using Suc.prems(1,2) pos w l by simp
  have frame: "\<forall>x. x \<notin> set (blocks_of B ps tbl [i..<i + Suc k]) \<longrightarrow> disk' x = disk x"
    unfolding range blocks_of_Cons using fr1 fr2 by auto
  have fetch: "fetch fresh disk'' (ps ! j) = Inr (tbl ! j)"
    if j: "i \<le> j" "j < i + Suc k"
      and ag: "\<forall>x. x = ps ! j \<or> x \<in> set (B (tbl ! j)) \<longrightarrow> disk'' x = disk' x"
    for j disk''
  proof (cases "j = i")
    case True
    have "\<forall>x. x = ps ! i \<or> x \<in> set (B (tbl ! i)) \<longrightarrow> disk'' x = disk1 x"
      using ag fr2 d1 d2 True by auto
    with ft1 True show ?thesis by blast
  next
    case False
    with j ag ft2 show ?thesis by auto
  qed
  from run frame fetch show ?case by blast
qed

lemma fetch_loop_result:
  assumes "i + k \<le> length ps" "i + k \<le> length tbl"
    and "\<forall>j. i \<le> j \<and> j < i + k \<longrightarrow>
           0 \<le> ps ! j \<and> tbl ! j = fresh \<and> fetch fresh disk (ps ! j) = Inr (c j)"
  shows "\<exists>tbl'. fetch_loop fetch k i ps tbl disk = Inr tbl' \<and> length tbl' = length tbl
           \<and> (\<forall>j. j < length tbl \<longrightarrow> tbl' ! j = (if i \<le> j \<and> j < i + k then c j else tbl ! j))"
  using assms
proof (induction k arbitrary: i tbl)
  case 0
  then show ?case by auto
next
  case (Suc k)
  from Suc.prems have here: "0 \<le> ps ! i" "tbl ! i = fresh" "fetch fresh disk (ps ! i) = Inr (c i)"
    by auto
  have "\<exists>tbl'. fetch_loop fetch k (Suc i) ps (tbl[i := c i]) disk = Inr tbl'
           \<and> length tbl' = length (tbl[i := c i])
           \<and> (\<forall>j. j < length (tbl[i := c i]) \<longrightarrow>
                 tbl' ! j = (if Suc i \<le> j \<and> j < Suc i + k then c j else (tbl[i := c i]) ! j))"
    using Suc.prems by (intro Suc.IH) auto
  then obtain tbl' where
    l: "fetch_loop fetch k (Suc i) ps (tbl[i := c i]) disk = Inr tbl'" and
    n: "length tbl' = length tbl" and
    v: "\<forall>j. j < length tbl \<longrightarrow>
          tbl' ! j = (if Suc i \<le> j \<and> j < Suc i + k then c j else (tbl[i := c i]) ! j)"
    by auto
  have run: "fetch_loop fetch (Suc k) i ps tbl disk = Inr tbl'"
    using Suc.prems(1,2) here l by simp
  have "tbl' ! j = (if i \<le> j \<and> j < i + Suc k then c j else tbl ! j)"
    if "j < length tbl" for j
  proof (cases "j = i")
    case True
    with v that show ?thesis by simp
  next
    case False
    with v that show ?thesis by (auto simp: nth_list_update)
  qed
  then have "\<forall>j. j < length tbl \<longrightarrow>
               tbl' ! j = (if i \<le> j \<and> j < i + Suc k then c j else tbl ! j)"
    by blast
  with run n show ?case by blast
qed

lemma distinct_interleave:
  "distinct (map f xs) \<Longrightarrow> distinct (concat (map g xs)) \<Longrightarrow>
   (\<forall>a\<in>set xs. \<forall>b\<in>set xs. f a \<notin> set (g b)) \<Longrightarrow>
   distinct (concat (map (\<lambda>j. f j # g j) xs))"
  by (induction xs) auto

lemma nat_consts:
  "nat NUM_INT_IN_SECTOR = 32" "nat NUM_INDIRECT_POINTER = 31" "nat NUM_FILE_HEADER_POINTER = 30"
  "NUM_INDIRECT_POINTER = 31" "NUM_FILE_HEADER_POINTER = 30"
  by (simp_all add: const_defs)

lemma ReadSector_full:
  "length (disk s) = 32 \<Longrightarrow> ReadSector disk s = disk s"
  by (simp add: ReadSector_def nat_consts)

lemma Single_roundtrips:
  assumes "wf_single p"
  shows "roundtrips SingleIndirectPointer_WriteBack SingleIndirectPointer_FetchFrom fresh p []"
proof -
  let ?cache = "s_numPointer p # s_pointerSectors p"
  have len: "length ?cache = 32" using assms by (simp add: wf_single_def)
  have w: "SingleIndirectPointer_WriteBack p s disk = Inr (disk(s := ?cache))" for s disk
    using assms by (simp add: SingleIndirectPointer_WriteBack_def WriteSector_def nat_consts wf_single_def)
  have f: "SingleIndirectPointer_FetchFrom fresh disk'' s = Inr p" if "disk'' s = ?cache" for disk'' s
  proof -
    have "ReadSector disk'' s = ?cache"
      using that len by (simp add: ReadSector_full)
    then show ?thesis
      using assms by (simp add: SingleIndirectPointer_FetchFrom_def nat_consts wf_single_def)
  qed
  show ?thesis
    unfolding roundtrips_def using w f by auto
qed

lemma node_roundtrip:
  assumes n: "n \<le> m" and lp: "length ps = m" and lt: "length tbl = m"
    and ch: "\<forall>j. j < n \<longrightarrow> 0 \<le> ps ! j \<and> roundtrips wb fetch fresh (tbl ! j) (B (tbl ! j))"
    and di: "distinct (blocks_of B ps tbl [0..<n])"
    and tl: "\<forall>j. n \<le> j \<and> j < m \<longrightarrow> tbl ! j = fresh"
    and s: "s \<notin> set (blocks_of B ps tbl [0..<n])"
  shows "\<exists>disk1. writeback_loop wb n 0 ps tbl disk = Inr disk1
           \<and> (\<forall>x. x \<notin> set (blocks_of B ps tbl [0..<n]) \<longrightarrow> disk1 x = disk x)
           \<and> (\<forall>cache disk''.
                 (\<forall>x. x = s \<or> x \<in> set (blocks_of B ps tbl [0..<n]) \<longrightarrow>
                      disk'' x = (disk1(s := cache)) x) \<longrightarrow>
                 fetch_loop fetch n 0 ps (replicate m fresh) disk'' = Inr tbl)"
proof -
  let ?bs = "blocks_of B ps tbl [0..<n]"
  have "\<exists>disk'. writeback_loop wb n 0 ps tbl disk = Inr disk'
       \<and> (\<forall>x. x \<notin> set (blocks_of B ps tbl [0..<0 + n]) \<longrightarrow> disk' x = disk x)
       \<and> (\<forall>j disk''. 0 \<le> j \<and> j < 0 + n
             \<and> (\<forall>x. x = ps ! j \<or> x \<in> set (B (tbl ! j)) \<longrightarrow> disk'' x = disk' x)
             \<longrightarrow> fetch fresh disk'' (ps ! j) = Inr (tbl ! j))"
    using n lp lt ch di by (intro writeback_loop_roundtrip) auto
  then obtain disk1 where
    l: "writeback_loop wb n 0 ps tbl disk = Inr disk1" and
    fr: "\<forall>x. x \<notin> set ?bs \<longrightarrow> disk1 x = disk x" and
    ft: "\<forall>j disk''. j < n \<and> (\<forall>x. x = ps ! j \<or> x \<in> set (B (tbl ! j)) \<longrightarrow> disk'' x = disk1 x)
           \<longrightarrow> fetch fresh disk'' (ps ! j) = Inr (tbl ! j)"
    by auto
  have again: "fetch_loop fetch n 0 ps (replicate m fresh) disk'' = Inr tbl"
    if ag: "\<forall>x. x = s \<or> x \<in> set ?bs \<longrightarrow> disk'' x = (disk1(s := cache)) x" for cache disk''
  proof -
    have each: "\<forall>j. 0 \<le> j \<and> j < 0 + n \<longrightarrow>
            0 \<le> ps ! j \<and> replicate m fresh ! j = fresh
            \<and> fetch fresh disk'' (ps ! j) = Inr (tbl ! j)"
    proof (intro allI impI)
      fix j assume "0 \<le> j \<and> j < 0 + n"
      then have jn: "j < n" by simp
      have "disk'' x = disk1 x" if x: "x = ps ! j \<or> x \<in> set (B (tbl ! j))" for x
      proof -
        from x jn have inb: "x \<in> set ?bs"
          by (intro in_blocks_of [of j]) auto
        with s have "x \<noteq> s" by auto
        with ag inb show ?thesis by simp
      qed
      with ft jn have "fetch fresh disk'' (ps ! j) = Inr (tbl ! j)" by blast
      with ch jn n show "0 \<le> ps ! j \<and> replicate m fresh ! j = fresh
            \<and> fetch fresh disk'' (ps ! j) = Inr (tbl ! j)"
        by auto
    qed
    have "\<exists>tbl'. fetch_loop fetch n 0 ps (replicate m fresh) disk'' = Inr tbl'
           \<and> length tbl' = length (replicate m fresh)
           \<and> (\<forall>j. j < length (replicate m fresh) \<longrightarrow>
                 tbl' ! j = (if 0 \<le> j \<and> j < 0 + n then tbl ! j else replicate m fresh ! j))"
      using n lp each by (intro fetch_loop_result) auto
    then obtain tbl' where
      fl: "fetch_loop fetch n 0 ps (replicate m fresh) disk'' = Inr tbl'" and
      ln: "length tbl' = m" and
      vs: "\<forall>j. j < m \<longrightarrow> tbl' ! j = (if j < n then tbl ! j else fresh)"
      by auto
    have "tbl' = tbl"
      using ln lt vs tl by (intro nth_equalityI) auto
    with fl show ?thesis by simp
  qed
  from l fr again show ?thesis by blast
qed

lemma Double_roundtrips:
  assumes wf: "wf_double d"
  shows "roundtrips DoubleIndirectPointer_WriteBack DoubleIndirectPointer_FetchFrom
           new_DoubleIndirectPointer d (double_blocks d)"
  unfolding roundtrips_def
proof (intro allI impI)
  fix s disk
  assume s: "s \<notin> set (double_blocks d)"
  let ?n = "nat (d_numPointer d)"
  let ?ps = "d_pointerSectors d"
  let ?tbl = "d_table d"
  let ?cache = "d_numPointer d # ?ps"
  from wf have n: "?n \<le> 31" and lp: "length ?ps = 31" and lt: "length ?tbl = 31"
    and ch: "\<forall>j. j < ?n \<longrightarrow> 0 \<le> ?ps ! j \<and> wf_single (?tbl ! j)"
    and di: "distinct (double_blocks d)"
    and tl: "\<forall>j. ?n \<le> j \<and> j < 31 \<longrightarrow> ?tbl ! j = new_SingleIndirectPointer"
    by (auto simp: wf_double_def)
  have len: "length ?cache = 32" using lp by simp
  from ch Single_roundtrips have ch': "\<forall>j. j < ?n \<longrightarrow> 0 \<le> ?ps ! j
      \<and> roundtrips SingleIndirectPointer_WriteBack SingleIndirectPointer_FetchFrom
           new_SingleIndirectPointer (?tbl ! j) []"
    by blast
  from node_roundtrip [where B = "\<lambda>c. []", OF n lp lt ch' di [unfolded double_blocks_def] tl
      s [unfolded double_blocks_def], of disk]
  obtain disk1 where
    l: "writeback_loop SingleIndirectPointer_WriteBack ?n 0 ?ps ?tbl disk = Inr disk1" and
    fr: "\<forall>x. x \<notin> set (double_blocks d) \<longrightarrow> disk1 x = disk x" and
    ft: "\<forall>cache disk''.
           (\<forall>x. x = s \<or> x \<in> set (double_blocks d) \<longrightarrow> disk'' x = (disk1(s := cache)) x) \<longrightarrow>
           fetch_loop SingleIndirectPointer_FetchFrom ?n 0 ?ps
             (replicate 31 new_SingleIndirectPointer) disk'' = Inr ?tbl"
    unfolding double_blocks_def by blast
  let ?disk' = "disk1(s := ?cache)"
  have w: "DoubleIndirectPointer_WriteBack d s disk = Inr ?disk'"
    using l lp by (simp add: DoubleIndirectPointer_WriteBack_def WriteSector_def nat_consts)
  have frame: "\<forall>x. x \<noteq> s \<and> x \<notin> set (double_blocks d) \<longrightarrow> ?disk' x = disk x"
    using fr by simp
  have again: "DoubleIndirectPointer_FetchFrom new_DoubleIndirectPointer disk'' s = Inr d"
    if ag: "\<forall>x. x = s \<or> x \<in> set (double_blocks d) \<longrightarrow> disk'' x = ?disk' x" for disk''
  proof -
    from ag have "disk'' s = ?cache" by simp
    with len have rd: "ReadSector disk'' s = ?cache"
      by (simp add: ReadSector_full)
    from ft ag have "fetch_loop SingleIndirectPointer_FetchFrom ?n 0 ?ps
             (replicate 31 new_SingleIndirectPointer) disk'' = Inr ?tbl"
      by blast
    with rd lp show ?thesis
      by (simp add: DoubleIndirectPointer_FetchFrom_def new_DoubleIndirectPointer_def nat_consts)
  qed
  from w frame again
  show "\<exists>disk'. DoubleIndirectPointer_WriteBack d s disk = Inr disk' \<and>
          (\<forall>x. x \<noteq> s \<and> x \<notin> set (double_blocks d) \<longrightarrow> disk' x = disk x) \<and>
          (\<forall>disk''. (\<forall>x. x = s \<or> x \<in> set (double_blocks d) \<longrightarrow> disk'' x = disk' x) \<longrightarrow>
             DoubleIndirectPointer_FetchFrom new_DoubleIndirectPointer disk'' s = Inr d)"
    by blast
qed

lemma Triple_roundtrips:
  assumes wf: "wf_triple t"
  shows "roundtrips TripleIndirectPointer_WriteBack TripleIndirectPointer_FetchFrom
           new_TripleIndirectPointer t (triple_blocks t)"
  unfolding roundtrips_def
proof (intro allI impI)
  fix s disk
  assume s: "s \<notin> set (triple_blocks t)"
  let ?n = "nat (t_numPointer t)"
  let ?ps = "t_pointerSectors t"
  let ?tbl = "t_table t"
  let ?cache = "t_numPointer t # ?ps"
  from wf have n: "?n \<le> 31" and lp: "length ?ps = 31" and lt: "length ?tbl = 31"
    and ch: "\<forall>j. j < ?n \<longrightarrow> 0 \<le> ?ps ! j \<and> wf_double (?tbl ! j)"
    and di: "distinct (triple_blocks t)"
    and tl: "\<forall>j. ?n \<le> j \<and> j < 31 \<longrightarrow> ?tbl ! j = new_DoubleIndirectPointer"
    by (auto simp: wf_triple_def)
  have len: "length ?cache = 32" using lp by simp
  from ch Double_roundtrips have ch': "\<forall>j. j < ?n \<longrightarrow> 0 \<le> ?ps ! j
      \<and> roundtrips DoubleIndirectPointer_WriteBack DoubleIndirectPointer_FetchFrom
           new_DoubleIndirectPointer (?tbl ! j) (double_blocks (?tbl ! j))"
    by blast
  from node_roundtrip [where B = double_blocks, OF n lp lt ch' di [unfolded triple_blocks_def] tl
      s [unfolded triple_blocks_def], of disk]
  obtain disk1 where
    l: "writeback_loop DoubleIndirectPointer_WriteBack ?n 0 ?ps ?tbl disk = Inr disk1" and
    fr: "\<forall>x. x \<notin> set (triple_blocks t) \<longrightarrow> disk1 x = disk x" and
    ft: "\<forall>cache disk''.
           (\<forall>x. x = s \<or> x \<in> set (triple_blocks t) \<longrightarrow> disk'' x = (disk1(s := cache)) x) \<longrightarrow>
           fetch_loop DoubleIndirectPointer_FetchFrom ?n 0 ?ps
             (replicate 31 new_DoubleIndirectPointer) disk'' = Inr ?tbl"
    unfolding triple_blocks_def by blast
  let ?disk' = "disk1(s := ?cache)"
  have w: "TripleIndirectPointer_WriteBack t s disk = Inr ?disk'"
    using l lp by (simp add: TripleIndirectPointer_WriteBack_def WriteSector_def nat_consts)
  have frame: "\<forall>x. x \<noteq> s \<and> x \<notin> set (triple_blocks t) \<longrightarrow> ?disk' x = disk x"
    using fr by simp
  have again: "TripleIndirectPointer_FetchFrom new_TripleIndirectPointer disk'' s = Inr t"
    if ag: "\<forall>x. x = s \<or> x \<in> set (triple_blocks t) \<longrightarrow> disk'' x = ?disk' x" for disk''
  proof -
    from ag have "disk'' s = ?cache" by simp
    with len have rd: "ReadSector disk'' s = ?cache"
      by (simp add: ReadSector_full)
    from ft ag have "fetch_loop DoubleIndirectPointer_FetchFrom ?n 0 ?ps
             (replicate 31 new_DoubleIndirectPointer) disk'' = Inr ?tbl"
      by blast
    with rd lp show ?thesis
      by (simp add: TripleIndirectPointer_FetchFrom_def new_TripleIndirectPointer_def nat_consts)
  qed
  from w frame again
  show "\<exists>disk'. TripleIndirectPointer_WriteBack t s disk = Inr disk' \<and>
          (\<forall>x. x \<noteq> s \<and> x \<notin> set (triple_blocks t) \<longrightarrow> disk' x = disk x) \<and>
          (\<forall>disk''. (\<forall>x. x = s \<or> x \<in> set (triple_blocks t) \<longrightarrow> disk'' x = disk' x) \<longrightarrow>
             TripleIndirectPointer_FetchFrom new_TripleIndirectPointer disk'' s = Inr t)"
    by blast
qed

lemma Direct_roundtrips:
  "roundtrips DirectPointer_WriteBack DirectPointer_FetchFrom fresh p []"
proof -
  let ?cache = "(replicate 32 (- 1))[0 := dataSector p]"
  have w: "DirectPointer_WriteBack p s disk = Inr (disk(s := ?cache))" for s disk
    by (simp add: DirectPointer_WriteBack_def WriteSector_def nat_consts)
  have f: "DirectPointer_FetchFrom fresh disk'' s = Inr p" if "disk'' s = ?cache" for disk'' s
  proof -
    have "ReadSector disk'' s = ?cache"
      using that by (simp add: ReadSector_full)
    then show ?thesis
      by (simp add: DirectPointer_FetchFrom_def)
  qed
  show ?thesis
    unfolding roundtrips_def using w f by auto
qed

lemma roundtrips_lift:
  assumes "roundtrips wb fetch fresh p bs"
    and "\<And>s d. wb' (Some (C p)) s d = wb p s d"
    and "\<And>d s. fetch' None d s = map_sum id (\<lambda>x. Some (C x)) (fetch fresh d s)"
  shows "roundtrips wb' fetch' None (Some (C p)) bs"
  unfolding roundtrips_def
proof (intro allI impI)
  fix s disk
  assume "s \<notin> set bs"
  with assms(1) obtain disk' where
    w: "wb p s disk = Inr disk'" and
    fr: "\<forall>x. x \<noteq> s \<and> x \<notin> set bs \<longrightarrow> disk' x = disk x" and
    ft: "\<forall>disk''. (\<forall>x. x = s \<or> x \<in> set bs \<longrightarrow> disk'' x = disk' x) \<longrightarrow> fetch fresh disk'' s = Inr p"
    unfolding roundtrips_def by blast
  from ft have "\<forall>disk''. (\<forall>x. x = s \<or> x \<in> set bs \<longrightarrow> disk'' x = disk' x) \<longrightarrow>
                  fetch' None disk'' s = Inr (Some (C p))"
    by (simp add: assms(3))
  with w fr show "\<exists>disk'. wb' (Some (C p)) s disk = Inr disk' \<and>
          (\<forall>x. x \<noteq> s \<and> x \<notin> set bs \<longrightarrow> disk' x = disk x) \<and>
          (\<forall>disk''. (\<forall>x. x = s \<or> x \<in> set bs \<longrightarrow> disk'' x = disk' x) \<longrightarrow>
             fetch' None disk'' s = Inr (Some (C p)))"
    by (simp add: assms(2))
qed

lemma map_sum_Some:
  "map_sum id Some (map_sum id C r) = map_sum id (\<lambda>x. Some (C x)) r"
  by (cases r) simp_all

lemma table_roundtrips:
  assumes "wf_dpi p" and "level_of p = lv"
  shows "roundtrips table_WriteBack (table_FetchFrom lv) None (Some p) (opt_blocks (Some p))"
proof (cases p)
  case (Direct x)
  with assms(2) have "roundtrips table_WriteBack (table_FetchFrom lv) None (Some (Direct x)) []"
    by (intro roundtrips_lift [OF Direct_roundtrips [of new_DirectPointer x]])
       (simp_all add: table_WriteBack_def table_FetchFrom_def GetNewPointerByLevel_def map_sum_Some)
  with Direct show ?thesis by (simp add: opt_blocks_def)
next
  case (Single x)
  with assms have "roundtrips table_WriteBack (table_FetchFrom lv) None (Some (Single x)) []"
    by (intro roundtrips_lift [OF Single_roundtrips [of x new_SingleIndirectPointer]])
       (auto simp: table_WriteBack_def table_FetchFrom_def GetNewPointerByLevel_def const_defs map_sum_Some)
  with Single show ?thesis by (simp add: opt_blocks_def)
next
  case (Double x)
  with assms have "roundtrips table_WriteBack (table_FetchFrom lv) None (Some (Double x)) (double_blocks x)"
    by (intro roundtrips_lift [OF Double_roundtrips [of x]])
       (auto simp: table_WriteBack_def table_FetchFrom_def GetNewPointerByLevel_def const_defs map_sum_Some)
  with Double show ?thesis by (simp add: opt_blocks_def)
next
  case (Triple x)
  with assms have "roundtrips table_WriteBack (table_FetchFrom lv) None (Some (Triple x)) (triple_blocks x)"
    by (intro roundtrips_lift [OF Triple_roundtrips [of x]])
       (auto simp: table_WriteBack_def table_FetchFrom_def GetNewPointerByLevel_def const_defs map_sum_Some)
  with Triple show ?thesis by (simp add: opt_blocks_def)
qed

lemma wf_header_fetched_back:
  assumes wf: "wf_header h" and s: "s \<notin> set (header_blocks h)"
  shows "\<exists>disk'. FileHeader_WriteBack h s disk = Inr disk'
           \<and> FileHeader_FetchFrom (new_FileHeader junk) disk' s = Inr h"
proof -
  let ?n = "nat (numPointer h)"
  let ?ps = "pointerSectors h"
  let ?tbl = "table h"
  let ?cache = "numBytes h # numPointer h # ?ps"
  from wf have n: "?n \<le> 30" and lp: "length ?ps = 30" and lt: "length ?tbl = 30"
    and ch: "\<forall>j. j < ?n \<longrightarrow> 0 \<le> ?ps ! j \<and> (\<exists>p. ?tbl ! j = Some p \<and> wf_dpi p \<and> level_of p = level h)"
    and di: "distinct (header_blocks h)"
    and tl: "\<forall>j. ?n \<le> j \<and> j < 30 \<longrightarrow> ?tbl ! j = None"
    and lm: "level_matches (numBytes h) (level h)"
    by (auto simp: wf_header_def)
  have len: "length ?cache = 32" using lp by simp
  have ch': "\<forall>j. j < ?n \<longrightarrow> 0 \<le> ?ps ! j
      \<and> roundtrips table_WriteBack (table_FetchFrom (level h)) None (?tbl ! j) (opt_blocks (?tbl ! j))"
  proof (intro allI impI)
    fix j assume "j < ?n"
    with ch obtain p where "0 \<le> ?ps ! j" "?tbl ! j = Some p" "wf_dpi p" "level_of p = level h"
      by blast
    with table_roundtrips [of p "level h"]
    show "0 \<le> ?ps ! j
      \<and> roundtrips table_WriteBack (table_FetchFrom (level h)) None (?tbl ! j) (opt_blocks (?tbl ! j))"
      by simp
  qed
  from node_roundtrip [where B = opt_blocks, OF n lp lt ch' di [unfolded header_blocks_def] tl
      s [unfolded header_blocks_def], of disk]
  obtain disk1 where
    l: "writeback_loop table_WriteBack ?n 0 ?ps ?tbl disk = Inr disk1" and
    ft: "\<forall>cache disk''.
           (\<forall>x. x = s \<or> x \<in> set (header_blocks h) \<longrightarrow> disk'' x = (disk1(s := cache)) x) \<longrightarrow>
           fetch_loop (table_FetchFrom (level h)) ?n 0 ?ps (replicate 30 None) disk'' = Inr ?tbl"
    unfolding header_blocks_def by blast
  let ?disk' = "disk1(s := ?cache)"
  have w: "FileHeader_WriteBack h s disk = Inr ?disk'"
    using l lp by (simp add: FileHeader_WriteBack_def WriteSector_def nat_consts)
  have rd: "ReadSector ?disk' s = ?cache"
    using len by (simp add: ReadSector_full)
  from ft have fl: "fetch_loop (table_FetchFrom (level h)) ?n 0 ?ps (replicate 30 None) ?disk' = Inr ?tbl"
    by blast
  let ?h1 = "(new_FileHeader junk)\<lparr>numBytes := numBytes h, numPointer := numPointer h, pointerSectors := ?ps\<rparr>"
  have fp: "FileHeader_FetchFrom_pointers (?h1\<lparr>level := level h\<rparr>) ?disk' = Inr h"
    using fl by (simp add: FileHeader_FetchFrom_pointers_def new_FileHeader_def nat_consts)
  have "FileHeader_FetchFrom (new_FileHeader junk) ?disk' s = Inr h"
    using lm fp rd lp
    by (auto simp: FileHeader_FetchFrom_def level_matches_def Let_def nat_consts split: if_splits)
  with w show ?thesis by blast
qed

lemma free_nonneg: "x \<in> free fm \<Longrightarrow> 0 \<le> x"
  by (simp add: free_def)

lemma allocate_loop_spec:
  assumes step: "\<And>c fm n c' fm'. Q c \<Longrightarrow> alloc c fm n = Inr (True, c', fm') \<Longrightarrow>
            P c' \<and> distinct (B c') \<and> set (B c') \<subseteq> free fm \<and> free fm' \<subseteq> free fm - set (B c')"
    and run: "allocate_loop alloc cap k i tbl remain fm = Inr (tbl', remain', fm')"
    and old: "\<forall>j. i \<le> j \<and> j < i + k \<longrightarrow> Q (tbl ! j)"
  shows "length tbl' = length tbl \<and> (k = 0 \<or> i + k \<le> length tbl)
       \<and> (\<forall>j. j < i \<or> i + k \<le> j \<longrightarrow> tbl' ! j = tbl ! j)
       \<and> (\<forall>j. i \<le> j \<and> j < i + k \<longrightarrow> P (tbl' ! j))
       \<and> distinct (concat (map (\<lambda>j. B (tbl' ! j)) [i..<i + k]))
       \<and> set (concat (map (\<lambda>j. B (tbl' ! j)) [i..<i + k])) \<subseteq> free fm
       \<and> free fm' \<subseteq> free fm - set (concat (map (\<lambda>j. B (tbl' ! j)) [i..<i + k]))"
  using run old
proof (induction k arbitrary: i tbl remain fm)
  case 0
  then show ?case by auto
next
  case (Suc k)
  let ?new = "concat (map (\<lambda>j. B (tbl' ! j)) [Suc i..<Suc i + k])"
  from Suc.prems(1) obtain c fm1 where
    i: "i < length tbl" and
    a: "alloc (tbl ! i) fm (min remain cap) = Inr (True, c, fm1)" and
    r: "allocate_loop alloc cap k (Suc i) (tbl[i := c]) (remain - min remain cap) fm1
          = Inr (tbl', remain', fm')"
    by (auto split: if_splits sum.splits prod.splits)
  from Suc.prems(2) have "Q (tbl ! i)" by simp
  from step [OF this a] have
    c: "P c" "distinct (B c)" "set (B c) \<subseteq> free fm" "free fm1 \<subseteq> free fm - set (B c)"
    by auto
  have old': "\<forall>j. Suc i \<le> j \<and> j < Suc i + k \<longrightarrow> Q ((tbl[i := c]) ! j)"
    using Suc.prems(2) by simp
  from Suc.IH [OF r old'] have
    l: "length tbl' = length tbl" and b: "k = 0 \<or> Suc i + k \<le> length tbl" and
    u: "\<forall>j. j < Suc i \<or> Suc i + k \<le> j \<longrightarrow> tbl' ! j = (tbl[i := c]) ! j" and
    p: "\<forall>j. Suc i \<le> j \<and> j < Suc i + k \<longrightarrow> P (tbl' ! j)" and
    d: "distinct ?new" and
    sub: "set ?new \<subseteq> free fm1" and
    fr: "free fm' \<subseteq> free fm1 - set ?new"
    by auto
  from u i have ti: "tbl' ! i = c" by simp
  have range: "concat (map (\<lambda>j. B (tbl' ! j)) [i..<i + Suc k]) = B c @ ?new"
    using ti by (simp add: upt_rec)
  from b i have bound: "i + Suc k \<le> length tbl" by auto
  from u have u': "\<forall>j. j < i \<or> i + Suc k \<le> j \<longrightarrow> tbl' ! j = tbl ! j" by auto
  have p': "\<forall>j. i \<le> j \<and> j < i + Suc k \<longrightarrow> P (tbl' ! j)"
  proof (intro allI impI)
    fix j assume "i \<le> j \<and> j < i + Suc k"
    then show "P (tbl' ! j)" using p ti c(1) by (cases "j = i") auto
  qed
  have 1: "distinct (B c @ ?new)" using d c sub by auto
  have 2: "set (B c @ ?new) \<subseteq> free fm" using sub c by auto
  have 3: "free fm' \<subseteq> free fm - set (B c @ ?new)" using fr c by auto
  from l bound u' p' 1 2 3 show ?case
    unfolding range by blast
qed

lemma reserve_then_allocate:
  assumes step: "\<And>c fm n c' fm'. Q c \<Longrightarrow> alloc c fm n = Inr (True, c', fm') \<Longrightarrow>
            P c' \<and> distinct (B c') \<and> set (B c') \<subseteq> free fm \<and> free fm' \<subseteq> free fm - set (B c')"
    and res: "reserve_loop n 0 ps fm = Inr (ps', fm1)"
    and run: "allocate_loop alloc cap n 0 tbl remain fm1 = Inr (tbl', remain', fm2)"
    and old: "\<forall>j. j < n \<longrightarrow> Q (tbl ! j)"
  shows "length ps' = length ps \<and> length tbl' = length tbl
       \<and> (\<forall>j. n \<le> j \<longrightarrow> tbl' ! j = tbl ! j)
       \<and> (\<forall>j. j < n \<longrightarrow> 0 \<le> ps' ! j \<and> P (tbl' ! j))
       \<and> distinct (blocks_of B ps' tbl' [0..<n])
       \<and> set (blocks_of B ps' tbl' [0..<n]) \<subseteq> free fm
       \<and> free fm2 \<subseteq> free fm - set (blocks_of B ps' tbl' [0..<n])"
proof -
  let ?R = "map ((!) ps') [0..<n]"
  let ?C = "concat (map (\<lambda>j. B (tbl' ! j)) [0..<n])"
  from reserve_loop_spec [OF res] have
    lp: "length ps' = length ps" and
    dR: "distinct ?R" and sR: "set ?R \<subseteq> free fm" and f1: "free fm1 = free fm - set ?R"
    by auto
  from allocate_loop_spec [of Q alloc P B, OF step run] old have
    lt: "length tbl' = length tbl" and
    u: "\<forall>j. n \<le> j \<longrightarrow> tbl' ! j = tbl ! j" and
    p: "\<forall>j. j < n \<longrightarrow> P (tbl' ! j)" and
    dC: "distinct ?C" and sC: "set ?C \<subseteq> free fm1" and f2: "free fm2 \<subseteq> free fm1 - set ?C"
    by auto
  have pos: "\<forall>j. j < n \<longrightarrow> 0 \<le> ps' ! j"
  proof (intro allI impI)
    fix j assume "j < n"
    then have "ps' ! j \<in> set ?R" by auto
    with sR show "0 \<le> ps' ! j" by (auto dest: free_nonneg)
  qed
  have sets: "set (blocks_of B ps' tbl' [0..<n]) = set ?R \<union> set ?C"
    by (auto simp: blocks_of_def)
  have "\<forall>a\<in>set [0..<n]. \<forall>b\<in>set [0..<n]. ps' ! a \<notin> set (B (tbl' ! b))"
  proof (intro ballI)
    fix a b assume a: "a \<in> set [0..<n]" and b: "b \<in> set [0..<n]"
    then have "ps' ! a \<in> set ?R" by auto
    moreover have "set (B (tbl' ! b)) \<subseteq> set ?C" using b by auto
    ultimately show "ps' ! a \<notin> set (B (tbl' ! b))" using sC f1 by auto
  qed
  with dR dC have "distinct (concat (map (\<lambda>j. ps' ! j # B (tbl' ! j)) [0..<n]))"
    by (intro distinct_interleave) auto
  then have 1: "distinct (blocks_of B ps' tbl' [0..<n])"
    by (simp add: blocks_of_def)
  have 2: "set (blocks_of B ps' tbl' [0..<n]) \<subseteq> free fm"
    unfolding sets using sR sC f1 by auto
  have 3: "free fm2 \<subseteq> free fm - set (blocks_of B ps' tbl' [0..<n])"
    unfolding sets using f2 f1 by auto
  from lp lt u p pos 1 2 3 show ?thesis by blast
qed

lemma wf_new_single: "wf_single new_SingleIndirectPointer"
  by (simp add: wf_single_def new_SingleIndirectPointer_def nat_consts)

lemma Single_Allocate_wf:
  assumes "wf_single p" and "SingleIndirectPointer_Allocate p fm n = Inr (True, p', fm')"
  shows "wf_single p' \<and> distinct ([]::int list) \<and> set [] \<subseteq> free fm \<and> free fm' \<subseteq> free fm - set []"
proof -
  from assms(2) obtain ps' where
    r: "reserve_loop (nat n) 0 (s_pointerSectors p) fm = Inr (ps', fm')" and
    p': "p' = p\<lparr>s_numPointer := n, s_pointerSectors := ps'\<rparr>"
    by (auto simp: SingleIndirectPointer_Allocate_def Let_def split: if_splits sum.splits)
  from reserve_loop_spec [OF r] assms(1) p' show ?thesis
    by (auto simp: wf_single_def)
qed

lemma Double_Allocate_wf:
  assumes "DoubleIndirectPointer_Allocate new_DoubleIndirectPointer fm n = Inr (True, d, fm')"
  shows "wf_double d \<and> distinct (double_blocks d) \<and> set (double_blocks d) \<subseteq> free fm
         \<and> free fm' \<subseteq> free fm - set (double_blocks d)"
proof -
  let ?p = "new_DoubleIndirectPointer"
  let ?np = "divRoundUp (size_t_of_int n) LEVEL_1_SECTOR_NUM"
  from assms obtain ps' fm1 tbl' remain' where
    r: "reserve_loop (nat ?np) 0 (d_pointerSectors ?p) fm = Inr (ps', fm1)" and
    a: "allocate_loop SingleIndirectPointer_Allocate (SECTOR_NUM_IN_LEVEL ! 1) (nat ?np) 0
          (d_table ?p) n fm1 = Inr (tbl', remain', fm')" and
    d: "d = ?p\<lparr>d_numPointer := ?np, d_pointerSectors := ps', d_table := tbl'\<rparr>"
    by (auto simp: DoubleIndirectPointer_Allocate_def Let_def split: if_splits sum.splits)
  from reserve_loop_spec [OF r] have np: "nat ?np \<le> 31"
    by (auto simp: new_DoubleIndirectPointer_def nat_consts)
  have old: "\<forall>j. j < nat ?np \<longrightarrow> wf_single (d_table ?p ! j)"
    using np by (auto simp: new_DoubleIndirectPointer_def nat_consts wf_new_single)
  from reserve_then_allocate [of wf_single SingleIndirectPointer_Allocate wf_single "\<lambda>c. []",
      OF Single_Allocate_wf r a old]
  have
    l: "length ps' = 31" "length tbl' = 31" and
    u: "\<forall>j. nat ?np \<le> j \<longrightarrow> tbl' ! j = d_table ?p ! j" and
    c: "\<forall>j. j < nat ?np \<longrightarrow> 0 \<le> ps' ! j \<and> wf_single (tbl' ! j)" and
    b: "distinct (blocks_of (\<lambda>c. []) ps' tbl' [0..<nat ?np])"
       "set (blocks_of (\<lambda>c. []) ps' tbl' [0..<nat ?np]) \<subseteq> free fm"
       "free fm' \<subseteq> free fm - set (blocks_of (\<lambda>c. []) ps' tbl' [0..<nat ?np])"
    by (auto simp: new_DoubleIndirectPointer_def nat_consts)
  have tail: "\<forall>j. nat ?np \<le> j \<and> j < 31 \<longrightarrow> tbl' ! j = new_SingleIndirectPointer"
    using u by (simp add: new_DoubleIndirectPointer_def nat_consts)
  from d np l c b tail show ?thesis
    by (simp add: wf_double_def double_blocks_def)
qed

lemma Triple_Allocate_wf:
  assumes "TripleIndirectPointer_Allocate new_TripleIndirectPointer fm n = Inr (True, t, fm')"
  shows "wf_triple t \<and> distinct (triple_blocks t) \<and> set (triple_blocks t) \<subseteq> free fm
         \<and> free fm' \<subseteq> free fm - set (triple_blocks t)"
proof -
  let ?p = "new_TripleIndirectPointer"
  let ?np = "divRoundUp (size_t_of_int n) LEVEL_2_SECTOR_NUM"
  from assms obtain ps' fm1 tbl' remain' where
    r: "reserve_loop (nat ?np) 0 (t_pointerSectors ?p) fm = Inr (ps', fm1)" and
    a: "allocate_loop DoubleIndirectPointer_Allocate (SECTOR_NUM_IN_LEVEL ! 2) (nat ?np) 0
          (t_table ?p) n fm1 = Inr (tbl', remain', fm')" and
    d: "t = ?p\<lparr>t_numPointer := ?np, t_pointerSectors := ps', t_table := tbl'\<rparr>"
    by (auto simp: TripleIndirectPointer_Allocate_def Let_def split: if_splits sum.splits)
  from reserve_loop_spec [OF r] have np: "nat ?np \<le> 31"
    by (auto simp: new_TripleIndirectPointer_def nat_consts)
  have old: "\<forall>j. j < nat ?np \<longrightarrow> t_table ?p ! j = new_DoubleIndirectPointer"
    using np by (auto simp: new_TripleIndirectPointer_def nat_consts)
  have step: "wf_double c' \<and> distinct (double_blocks c') \<and> set (double_blocks c') \<subseteq> free fm
         \<and> free fm' \<subseteq> free fm - set (double_blocks c')"
    if "c = new_DoubleIndirectPointer" "DoubleIndirectPointer_Allocate c fm n = Inr (True, c', fm')"
    for c fm n c' fm'
    using that Double_Allocate_wf by simp
  from reserve_then_allocate [of "\<lambda>c. c = new_DoubleIndirectPointer" DoubleIndirectPointer_Allocate
      wf_double double_blocks, OF step r a old]
  have
    l: "length ps' = 31" "length tbl' = 31" and
    u: "\<forall>j. nat ?np \<le> j \<longrightarrow> tbl' ! j = t_table ?p ! j" and
    c: "\<forall>j. j < nat ?np \<longrightarrow> 0 \<le> ps' ! j \<and> wf_double (tbl' ! j)" and
    b: "distinct (blocks_of double_blocks ps' tbl' [0..<nat ?np])"
       "set (blocks_of double_blocks ps' tbl' [0..<nat ?np]) \<subseteq> free fm"
       "free fm' \<subseteq> free fm - set (blocks_of double_blocks ps' tbl' [0..<nat ?np])"
    by (auto simp: new_TripleIndirectPointer_def nat_consts)
  have tail: "\<forall>j. nat ?np \<le> j \<and> j < 31 \<longrightarrow> tbl' ! j = new_DoubleIndirectPointer"
    using u by (simp add: new_TripleIndirectPointer_def nat_consts)
  from d np l c b tail show ?thesis
    by (simp add: wf_triple_def triple_blocks_def)
qed

lemma FindAndSet_free_subset:
  "FindAndSet fm = (s, fm') \<Longrightarrow> 0 \<le> s \<Longrightarrow> free fm' \<subseteq> free fm"
  using FindAndSet_free by blast

lemma table_Allocate_wf:
  assumes "table_Allocate lv old fm n = Inr (True, c', fm')"
  shows "(\<exists>p. c' = Some p \<and> wf_dpi p \<and> level_of p = lv) \<and> distinct (opt_blocks c')
         \<and> set (opt_blocks c') \<subseteq> free fm \<and> free fm' \<subseteq> free fm - set (opt_blocks c')"
proof -
  from assms obtain p p' where
    g: "GetNewPointerByLevel lv = Some p" and
    a: "Allocate p fm n = Inr (True, p', fm')" and c': "c' = Some p'"
    by (auto simp: table_Allocate_def split: option.splits sum.splits)
  from g consider
      "lv = LEVEL_1" "p = Direct new_DirectPointer"
    | "lv = LEVEL_2" "p = Single new_SingleIndirectPointer"
    | "lv = LEVEL_3" "p = Double new_DoubleIndirectPointer"
    | "lv = LEVEL_4" "p = Triple new_TripleIndirectPointer"
    by (auto simp: GetNewPointerByLevel_def split: if_splits)
  then show ?thesis
  proof cases
    case 1
    with a obtain x where "p' = Direct x" "DirectPointer_Allocate new_DirectPointer fm n = Inr (True, x, fm')"
      by (auto split: sum.splits)
    then have "p' = Direct x" "free fm' \<subseteq> free fm"
      by (auto simp: DirectPointer_Allocate_def split: if_splits prod.splits dest: FindAndSet_free_subset)
    with 1 c' show ?thesis by (simp add: opt_blocks_def)
  next
    case 2
    with a obtain x where x: "p' = Single x"
      "SingleIndirectPointer_Allocate new_SingleIndirectPointer fm n = Inr (True, x, fm')"
      by (auto split: sum.splits)
    from Single_Allocate_wf [OF wf_new_single x(2)] x(1) 2 c' show ?thesis
      by (simp add: opt_blocks_def)
  next
    case 3
    with a obtain x where x: "p' = Double x"
      "DoubleIndirectPointer_Allocate new_DoubleIndirectPointer fm n = Inr (True, x, fm')"
      by (auto split: sum.splits)
    from Double_Allocate_wf [OF x(2)] x(1) 3 c' show ?thesis
      by (simp add: opt_blocks_def)
  next
    case 4
    with a obtain x where x: "p' = Triple x"
      "TripleIndirectPointer_Allocate new_TripleIndirectPointer fm n = Inr (True, x, fm')"
      by (auto split: sum.splits)
    from Triple_Allocate_wf [OF x(2)] x(1) 4 c' show ?thesis
      by (simp add: opt_blocks_def)
  qed
qed

lemma Allocate_pointers_wf:
  assumes "FileHeader_Allocate_pointers h0 fm ns = Inr (True, h, fm')"
    and "length (pointerSectors h0) = 30" and "table h0 = replicate 30 None"
  shows "nat (numPointer h) \<le> 30 \<and> length (pointerSectors h) = 30 \<and> length (table h) = 30
      \<and> (\<forall>j. j < nat (numPointer h) \<longrightarrow>
             0 \<le> pointerSectors h ! j
             \<and> (\<exists>p. table h ! j = Some p \<and> wf_dpi p \<and> level_of p = level h0))
      \<and> distinct (header_blocks h)
      \<and> (\<forall>j. nat (numPointer h) \<le> j \<and> j < 30 \<longrightarrow> table h ! j = None)
      \<and> level h = level h0 \<and> numBytes h = numBytes h0
      \<and> set (header_blocks h) \<subseteq> free fm"
proof -
  let ?np = "divRoundUp ns (SECTOR_NUM_IN_LEVEL ! nat (level h0 - 1))"
  from assms(1) obtain ps' fm1 tbl' remain' where
    r: "reserve_loop (nat ?np) 0 (pointerSectors h0) fm = Inr (ps', fm1)" and
    a: "allocate_loop (table_Allocate (level h0)) (SECTOR_NUM_IN_LEVEL ! nat (level h0 - 1))
          (nat ?np) 0 (table h0) ns fm1 = Inr (tbl', remain', fm')" and
    h: "h = h0\<lparr>numPointer := ?np, pointerSectors := ps', table := tbl'\<rparr>"
    by (auto simp: FileHeader_Allocate_pointers_def Let_def split: if_splits sum.splits)
  from reserve_loop_spec [OF r] assms(2) have np: "nat ?np \<le> 30"
    by auto
  have step: "(\<exists>p. c' = Some p \<and> wf_dpi p \<and> level_of p = level h0) \<and> distinct (opt_blocks c')
         \<and> set (opt_blocks c') \<subseteq> free fm \<and> free fm' \<subseteq> free fm - set (opt_blocks c')"
    if "True" "table_Allocate (level h0) c fm n = Inr (True, c', fm')"
    for c fm n c' fm'
    using that table_Allocate_wf by simp
  from reserve_then_allocate [of "\<lambda>c. True" "table_Allocate (level h0)"
      "\<lambda>c'. \<exists>p. c' = Some p \<and> wf_dpi p \<and> level_of p = level h0" opt_blocks, OF step r a]
  have
    l: "length ps' = 30" "length tbl' = 30" and
    u: "\<forall>j. nat ?np \<le> j \<longrightarrow> tbl' ! j = table h0 ! j" and
    c: "\<forall>j. j < nat ?np \<longrightarrow> 0 \<le> ps' ! j \<and> (\<exists>p. tbl' ! j = Some p \<and> wf_dpi p \<and> level_of p = level h0)" and
    b: "distinct (blocks_of opt_blocks ps' tbl' [0..<nat ?np])"
       "set (blocks_of opt_blocks ps' tbl' [0..<nat ?np]) \<subseteq> free fm"
    using assms(2,3) by auto
  have tail: "\<forall>j. nat ?np \<le> j \<and> j < 30 \<longrightarrow> tbl' ! j = None"
    using u assms(3) by simp
  from h np l c b tail show ?thesis
    by (simp add: header_blocks_def)
qed

lemma new_FileHeader_shape:
  "length (pointerSectors (new_FileHeader junk)) = 30 \<and> table (new_FileHeader junk) = replicate 30 None"
  by (simp add: new_FileHeader_def nat_consts)

lemma Allocate_wf:
  assumes "FileHeader_Allocate (new_FileHeader junk) fm s = Inr (True, h, fm')"
  shows "wf_header h \<and> set (header_blocks h) \<subseteq> free fm"
proof -
  let ?h0 = "(new_FileHeader junk)\<lparr>numBytes := s\<rparr>"
  have shape: "length (pointerSectors (?h0\<lparr>level := lv\<rparr>)) = 30"
      "table (?h0\<lparr>level := lv\<rparr>) = replicate 30 None" for lv
    using new_FileHeader_shape [of junk] by simp_all
  from assms obtain lv where
    a: "FileHeader_Allocate_pointers (?h0\<lparr>level := lv\<rparr>) fm (divRoundUp s SectorSize) = Inr (True, h, fm')"
    and lm: "level_matches s lv"
    by (auto simp: FileHeader_Allocate_def Let_def level_matches_def split: if_splits)
  from Allocate_pointers_wf [OF a shape] lm show ?thesis
    by (simp add: wf_header_def)
qed


lemma Allocate_blocks_were_free:
  assumes "FileHeader_Allocate (new_FileHeader junk) freeMap s = Inr (True, hdr, freeMap')"
    and "Test freeMap sec"
  shows "sec \<notin> set (header_blocks hdr)"
  using Allocate_wf [OF assms(1)] assms(2) by (auto simp: free_def Test_def)

lemma FindAndSet_marks:
  assumes "FindAndSet bm = (s, bm')" and "s \<noteq> - 1"
  shows "Test bm' s"
proof -
  from assms obtain i where i: "first_clear bm = Some i" "s = int i" "bm' = bm[i := True]"
    by (auto simp: FindAndSet_def split: option.splits)
  from first_clear_Some [OF i(1)] have "i < length bm" by auto
  with i(2,3) show ?thesis by (simp add: Test_def)
qed

lemma header_roundtrip_off_blocks:
  assumes "FileHeader_Allocate (new_FileHeader junk) freeMap s = Inr (True, hdr, freeMap')"
    and "sec \<notin> set (header_blocks hdr)"
  shows "\<exists>disk'. FileHeader_WriteBack hdr sec disk = Inr disk'
           \<and> FileHeader_FetchFrom (new_FileHeader junk') disk' sec = Inr hdr"
  using Allocate_wf [OF assms(1)] assms(2) wf_header_fetched_back [of hdr sec disk junk'] by auto

text \<open>
  C6. The sector of a header is reserved before the header is allocated: every caller
  takes it from the bitmap (\<open>sector = freeMap->FindAndSet()\<close> in \<open>CreateFile\<close> and
  \<open>CreateDirectory\<close>, \<open>Mark\<close> of sectors 0 and 1 when formatting) and then calls
  \<open>hdr->Allocate(freeMap, size)\<close> and \<open>hdr->WriteBack(sector)\<close>. So \<open>sec\<close> is a sector that
  the bitmap given to \<open>Allocate\<close> has marked. When \<open>FileHeader::Allocate\<close> on a new header
  succeeds for the size \<open>s\<close>, then on every disk \<open>WriteBack(sec)\<close> succeeds, and
  \<open>FetchFrom(sec)\<close> on a new header succeeds and yields a header equal to the one
  written, so that \<open>ByteToSector\<close> gives the same result before and after for every
  offset (those in \<open>[0, s)\<close> among them) and every table \<open>SIZE_IN_LEVEL\<close>.
\<close>

theorem header_roundtrip:
  assumes "FileHeader_Allocate (new_FileHeader junk) freeMap s = Inr (True, hdr, freeMap')"
    and "Test freeMap sec"
  shows "\<exists>disk' hdr'. FileHeader_WriteBack hdr sec disk = Inr disk'
           \<and> FileHeader_FetchFrom (new_FileHeader junk') disk' sec = Inr hdr'
           \<and> hdr' = hdr
           \<and> (\<forall>off. FileHeader_ByteToSector SIZE_IN_LEVEL hdr' off
                      = FileHeader_ByteToSector SIZE_IN_LEVEL hdr off)"
  using header_roundtrip_off_blocks [OF assms(1) Allocate_blocks_were_free [OF assms], of disk junk']
  by auto

text \<open>
  The witness follows \<open>CreateFile\<close> on a bitmap of 8 sectors with 0 and 1 in use:
  \<open>FindAndSet\<close> gives sector 2 for the header, \<open>Allocate(2)\<close> takes sector 3 for the direct
  pointer and sector 4 for the data, and the header is written to sector 2 and fetched
  back; \<open>ByteToSector(0)\<close> is 4.
\<close>

theorem header_roundtrip_witness:
  "FindAndSet [True, True, False, False, False, False, False, False]
     = (2, [True, True, True, False, False, False, False, False])
   \<and> Test [True, True, True, False, False, False, False, False] 2
   \<and> FileHeader_Allocate (new_FileHeader (\<lambda>_. 0))
       [True, True, True, False, False, False, False, False] 2
     = Inr (True,
            \<lparr>numBytes = 2, numPointer = 1, pointerSectors = 3 # replicate 29 0, level = 1,
             table = Some (Direct \<lparr>dataSector = 4\<rparr>) # replicate 29 None\<rparr>,
            [True, True, True, True, True, False, False, False])
   \<and> (\<exists>disk'. FileHeader_WriteBack
                  \<lparr>numBytes = 2, numPointer = 1, pointerSectors = 3 # replicate 29 0, level = 1,
                   table = Some (Direct \<lparr>dataSector = 4\<rparr>) # replicate 29 None\<rparr> 2 (\<lambda>_. [])
                = Inr disk'
         \<and> FileHeader_FetchFrom (new_FileHeader (\<lambda>_. 7)) disk' 2
             = Inr \<lparr>numBytes = 2, numPointer = 1, pointerSectors = 3 # replicate 29 0, level = 1,
                   table = Some (Direct \<lparr>dataSector = 4\<rparr>) # replicate 29 None\<rparr>)
   \<and> FileHeader_ByteToSector matching_SIZE_IN_LEVEL
        \<lparr>numBytes = 2, numPointer = 1, pointerSectors = 3 # replicate 29 0, level = 1,
         table = Some (Direct \<lparr>dataSector = 4\<rparr>) # replicate 29 None\<rparr> 0 = Inr 4"
proof -
  let ?h = "\<lparr>numBytes = 2, numPointer = 1, pointerSectors = 3 # replicate 29 0, level = 1,
             table = Some (Direct \<lparr>dataSector = 4\<rparr>) # replicate 29 None\<rparr>"
  let ?fm = "[True, True, True, False, False, False, False, False]"
  have f: "FindAndSet [True, True, False, False, False, False, False, False] = (2, ?fm)"
    by code_simp
  have t: "Test ?fm 2"
    by code_simp
  have a: "FileHeader_Allocate (new_FileHeader (\<lambda>_. 0)) ?fm 2
     = Inr (True, ?h, [True, True, True, True, True, False, False, False])"
    by code_simp
  have c: "FileHeader_ByteToSector matching_SIZE_IN_LEVEL ?h 0 = Inr 4"
    by code_simp
  from header_roundtrip [OF a t, of "\<lambda>_. []" "\<lambda>_. 7"] f t a c show ?thesis
    by auto
qed

end
